theory Spec2Isabelle
  imports Main
begin

section \<open>JavaScript values\<close>

text \<open>
  The screens read rows that the data gateway delivers as JSON. A field declared
  \<^verbatim>\<open>string\<close> or \<^verbatim>\<open>string | null\<close> can hold a string, \<^verbatim>\<open>null\<close>, or be absent
  (\<^verbatim>\<open>undefined\<close>); the source tests such fields for truthiness and compares them with
  \<^verbatim>\<open>!==\<close>. Strict (in)equality on these three shapes is equality of the datatype.
\<close>

datatype js_string = Undefined | Null | Str string

definition truthy :: "js_string \<Rightarrow> bool" where
  "truthy v = (case v of Str s \<Rightarrow> s \<noteq> [] | _ \<Rightarrow> False)"

text \<open>\<^verbatim>\<open>a || b\<close>: the left operand when it is truthy, the right one otherwise.\<close>

definition js_or :: "js_string \<Rightarrow> js_string \<Rightarrow> js_string" where
  "js_or a b = (if truthy a then a else b)"

section \<open>Data model of the messaging screens\<close>

record profile =
  profile_id :: js_string
  username :: js_string
  display_name :: js_string
  avatar_url :: js_string

text \<open>A participant row carries the joined profile; \<open>None\<close> is a missing payload.\<close>

record participant =
  profiles :: "profile option"

record conversation =
  conv_id :: string
  last_message :: js_string
  last_message_at :: js_string
  updated_at :: js_string
  participants :: "participant list option"

text \<open>The \<^verbatim>\<open>useState\<close> cells of \<^verbatim>\<open>MessagesScreen\<close>.\<close>

record messages_screen =
  conversations :: "conversation list"
  loading :: bool
  refreshing :: bool
  searchQuery :: string
  currentUserId :: js_string
  error :: js_string

text \<open>
  What \<^verbatim>\<open>console.log\<close>, \<^verbatim>\<open>console.warn\<close> and \<^verbatim>\<open>console.error\<close> receive. A template
  literal is listed piece by piece: \<open>S\<close> a string, \<open>N\<close> a number, \<open>V\<close> a possibly
  missing string, \<open>B\<close> a boolean, \<open>Obj\<close> an object literal, \<open>Json\<close> rows
  printed with \<^verbatim>\<open>JSON.stringify\<close>.
\<close>

datatype console_arg =
  S string | N nat | V js_string | B bool | Obj "(string \<times> console_arg) list"
  | Json "conversation list"

datatype console_entry =
  Log "console_arg list" | Warn "console_arg list" | Error "console_arg list"

text \<open>The screen's state cells together with the console it writes to.\<close>

record world =
  screen :: messages_screen
  console :: "console_entry list"

definition console_write :: "console_entry list \<Rightarrow> world \<Rightarrow> world" where
  "console_write es w = w\<lparr>console := console w @ es\<rparr>"

section \<open>The conversation-list resolver\<close>

text \<open>\<^verbatim>\<open>p.profiles && p.profiles.id\<close>\<close>

definition hasValidProfile :: "participant \<Rightarrow> bool" where
  "hasValidProfile p =
     (case profiles p of None \<Rightarrow> False | Some pr \<Rightarrow> truthy (profile_id pr))"

text \<open>
  \<^verbatim>\<open>participants.filter((p) => p.profiles && p.profiles.id).map((p) => p.profiles)\<close>:
  every participant that passes the filter has a payload, which the map step extracts.
\<close>

definition validProfiles :: "participant list \<Rightarrow> profile list" where
  "validProfiles ps = List.map_filter profiles (filter hasValidProfile ps)"

text \<open>\<^verbatim>\<open>validProfiles.filter((profile) => profile.id !== currentUserId)\<close>\<close>

definition otherProfiles :: "js_string \<Rightarrow> participant list \<Rightarrow> profile list" where
  "otherProfiles viewer ps = filter (\<lambda>pr. profile_id pr \<noteq> viewer) (validProfiles ps)"

definition debugProfile :: "profile option \<Rightarrow> console_arg" where
  "debugProfile po =
     (case po of
        Some pr \<Rightarrow> Obj [(''id'', V (profile_id pr)), (''username'', V (username pr)),
                        (''displayName'', V (display_name pr))]
      | None \<Rightarrow> S ''No profile data'')"

definition debugParticipants :: "js_string \<Rightarrow> conversation \<Rightarrow> console_entry list" where
  "debugParticipants viewer conversation =
     [Log [S ''Debugging conversation '', S (conv_id conversation), S '':''],
      Log [S ''Current user ID: '', V viewer],
      Log [S ''Number of participants: '',
           N (case participants conversation of None \<Rightarrow> 0 | Some ps \<Rightarrow> length ps)]]
     @ (case participants conversation of
          None \<Rightarrow> []
        | Some ps \<Rightarrow>
            map (\<lambda>(index, p). Log [S ''Participant '', N index, S '':'', debugProfile (profiles p)])
                (enumerate 0 ps))"

text \<open>
  \<^verbatim>\<open>getOtherParticipant(conversation)\<close> of the conversation list. It reads
  \<^verbatim>\<open>currentUserId\<close> from the screen and writes to the console; \<open>None\<close> is \<^verbatim>\<open>null\<close>.
  Both \<open>hd\<close> calls are reached only on a non-empty list, as \<^verbatim>\<open>[0]\<close> is in the source.
\<close>

definition getOtherParticipant :: "conversation \<Rightarrow> world \<Rightarrow> profile option \<times> world" where
  "getOtherParticipant conversation w =
     (case participants conversation of
        None \<Rightarrow>
          (None, console_write [Warn [S ''No participants in conversation '', S (conv_id conversation)]] w)
      | Some ps \<Rightarrow>
          if length ps = 0 then
            (None, console_write [Warn [S ''No participants in conversation '', S (conv_id conversation)]] w)
          else
            let viewer = currentUserId (screen w);
                w1 = console_write (debugParticipants viewer conversation) w;
                valid = validProfiles ps
            in if length valid = 0 then
                 (None, console_write [Warn [S ''No valid profiles in conversation '', S (conv_id conversation)]] w1)
               else
                 let others = filter (\<lambda>pr. profile_id pr \<noteq> viewer) valid
                 in if length others > 0 then
                      (Some (hd others),
                       console_write [Log [S ''Found '', N (length others),
                                           S '' other participants for conversation '',
                                           S (conv_id conversation)]] w1)
                    else
                      (Some (hd valid),
                       console_write [Log [S ''Only found current user in conversation '',
                                           S (conv_id conversation),
                                           S '' - possible self-message'']] w1))"

text \<open>The participant list of a conversation, empty when the field is missing.\<close>

definition participantList :: "conversation \<Rightarrow> participant list" where
  "participantList conversation =
     (case participants conversation of None \<Rightarrow> [] | Some ps \<Rightarrow> ps)"

section \<open>Rendering a conversation row\<close>

text \<open>
  The avatar chosen by \<^verbatim>\<open>renderItem\<close>:
  \<^verbatim>\<open>participants.find((p) => p.profiles && p.profiles.id !== currentUserId)
      ?.profiles?.avatar_url || otherParticipant.avatar_url\<close>
\<close>

definition differsFromViewer :: "js_string \<Rightarrow> participant \<Rightarrow> bool" where
  "differsFromViewer viewer p =
     (case profiles p of None \<Rightarrow> False | Some pr \<Rightarrow> profile_id pr \<noteq> viewer)"

definition foundAvatar :: "js_string \<Rightarrow> participant list \<Rightarrow> js_string" where
  "foundAvatar viewer ps =
     (case List.find (differsFromViewer viewer) ps of
        None \<Rightarrow> Undefined
      | Some p \<Rightarrow> (case profiles p of None \<Rightarrow> Undefined | Some pr \<Rightarrow> avatar_url pr))"

definition avatarUrl :: "js_string \<Rightarrow> participant list \<Rightarrow> profile \<Rightarrow> js_string" where
  "avatarUrl viewer ps otherParticipant =
     js_or (foundAvatar viewer ps) (avatar_url otherParticipant)"

text \<open>What one row of the list shows, and where a press on it navigates.\<close>

record conversation_item =
  item_avatar_uri :: js_string
  item_title :: js_string
  item_timestamp :: string
  item_last_message :: js_string
  item_route :: string

definition defaultAvatar :: string where
  "defaultAvatar =
     ''https://images.unsplash.com/photo-1633332755192-727a05c4013d?w=100&h=100&fit=crop''"

text \<open>
  \<^verbatim>\<open>renderItem\<close>; \<open>None\<close> is the \<^verbatim>\<open>null\<close> that renders nothing. The helper
  \<^verbatim>\<open>formatRelativeTime\<close> of \<^verbatim>\<open>lib/date-utils\<close> is a parameter. The participant list
  is read only after the resolver has returned a profile, so it is present there.
\<close>

definition renderItem ::
  "(string \<Rightarrow> string) \<Rightarrow> conversation \<Rightarrow> world \<Rightarrow> conversation_item option \<times> world" where
  "renderItem formatRelativeTime conversation w =
     (let w0 = console_write [Log [S ''Rendering conversation '', S (conv_id conversation)]] w;
          r = getOtherParticipant conversation w0;
          w1 = snd r
      in case fst r of
           None \<Rightarrow>
             (None, console_write [Warn [S ''No valid participant found for conversation '',
                                         S (conv_id conversation)]] w1)
         | Some otherParticipant \<Rightarrow>
             let viewer = currentUserId (screen w1);
                 ps = participantList conversation;
                 isSelfMessage =
                   list_all (\<lambda>p. case profiles p of None \<Rightarrow> False
                                   | Some pr \<Rightarrow> profile_id pr = viewer) ps;
                 avatar = avatarUrl viewer ps otherParticipant;
                 w2 = console_write
                        [Log [S ''Using participant:'',
                              Obj [(''id'', V (profile_id otherParticipant)),
                                   (''username'', V (username otherParticipant)),
                                   (''displayName'', V (display_name otherParticipant)),
                                   (''isCurrentUser'', B (profile_id otherParticipant = viewer)),
                                   (''isSelfMessage'', B isSelfMessage),
                                   (''avatarUrl'', V avatar)]]] w1;
                 formattedTime =
                   (case last_message_at conversation of
                      Str t \<Rightarrow> if t \<noteq> [] then formatRelativeTime t else ''Unknown time''
                    | _ \<Rightarrow> ''Unknown time'')
             in (Some \<lparr>item_avatar_uri = js_or avatar (Str defaultAvatar),
                       item_title = js_or (display_name otherParticipant)
                                      (js_or (username otherParticipant) (Str ''Unknown user'')),
                       item_timestamp = formattedTime,
                       item_last_message = js_or (last_message conversation) (Str ''No messages yet''),
                       item_route = ''/messages/'' @ conv_id conversation\<rparr>,
                 w2))"

text \<open>
  The filter of \<^verbatim>\<open>fetchConversations\<close> before it stores the rows:
  \<^verbatim>\<open>conv.participants && conv.participants.length > 0 &&
      conv.participants.some((p) => p.profiles && p.profiles.id)\<close>
\<close>

definition validConversations :: "conversation list \<Rightarrow> conversation list" where
  "validConversations rows =
     filter (\<lambda>conv. case participants conv of
                      None \<Rightarrow> False
                    | Some ps \<Rightarrow> length ps > 0 \<and> list_ex hasValidProfile ps) rows"


section \<open>The header resolver of the direct-message screen\<close>

text \<open>
  \<^verbatim>\<open>participants.map((p) => p.profiles).find((profile) => profile.id !== currentUserId)\<close>
  of \<^verbatim>\<open>DirectMessageScreen\<close>. The callback reads \<^verbatim>\<open>profile.id\<close> without a guard, so a
  missing payload reached by the scan raises a \<^verbatim>\<open>TypeError\<close>; \<open>Inr None\<close> is the
  \<^verbatim>\<open>undefined\<close> that \<^verbatim>\<open>find\<close> returns when no element matches.
\<close>

datatype js_error = TypeError

fun findOther :: "js_string \<Rightarrow> profile option list \<Rightarrow> js_error + profile option" where
  "findOther viewer [] = Inr None"
| "findOther viewer (None # rest) = Inl TypeError"
| "findOther viewer (Some pr # rest) =
     (if profile_id pr \<noteq> viewer then Inr (Some pr) else findOther viewer rest)"

definition getOtherParticipant_dm ::
  "participant list \<Rightarrow> js_string \<Rightarrow> js_error + profile option" where
  "getOtherParticipant_dm ps viewer = findOther viewer (map profiles ps)"


section \<open>Starting a conversation\<close>

text \<open>
  The two tables that \<^verbatim>\<open>startConversation\<close> of \<^verbatim>\<open>NewMessageScreen\<close> reads and writes:
  the identifiers of the \<^verbatim>\<open>conversations\<close> rows, and the
  \<^verbatim>\<open>(conversation_id, user_id)\<close> pairs of \<^verbatim>\<open>conversation_participants\<close>, in the order
  in which the gateway returns them.
\<close>

record database =
  conversations_table :: "string list"
  conversation_participants :: "(string \<times> string) list"

text \<open>
  \<^verbatim>\<open>supabase.auth.getUser()\<close> resolves with a user, with no user, with an error, or
  rejects.
\<close>

datatype auth_response = UserOk string | UserNone | UserError | UserThrows

text \<open>
  What the gateway answers during one call of \<^verbatim>\<open>startConversation\<close>: which of the
  requests it reports as failed, and the identifier it gives to an inserted conversation.
\<close>

record gateway =
  participants_select_fails :: bool
  lookup_fails :: "string \<Rightarrow> bool"
  conversation_insert_fails :: bool
  participants_insert_fails :: bool
  new_uuid :: string

text \<open>The state cells of \<^verbatim>\<open>NewMessageScreen\<close>, the tables, and what was pushed on the router.\<close>

record new_message_world =
  nm_searchQuery :: string
  nm_profiles :: "profile list"
  nm_loading :: bool
  nm_error :: js_string
  db :: database
  routes :: "string list"
  nm_console :: "console_entry list"

text \<open>\<^verbatim>\<open>.single()\<close>: the row when exactly one row matches, no data otherwise.\<close>

definition single :: "'a list \<Rightarrow> 'a option" where
  "single rows = (case rows of [r] \<Rightarrow> Some r | _ \<Rightarrow> None)"

text \<open>
  \<^verbatim>\<open>from('conversation_participants').select('conversation_id')
      .eq('conversation_id', cid).eq('user_id', otherUserId).single()\<close>;
  the source reads only \<^verbatim>\<open>data\<close> of the answer, so a failed request looks like no row.
\<close>

definition lookupOther :: "gateway \<Rightarrow> database \<Rightarrow> string \<Rightarrow> string \<Rightarrow> string option" where
  "lookupOther g d cid otherUserId =
     (if lookup_fails g cid then None
      else map_option fst
             (single (filter (\<lambda>(c, u). c = cid \<and> u = otherUserId) (conversation_participants d))))"

text \<open>The \<^verbatim>\<open>for\<close> loop over the viewer's participant rows, left at the first hit.\<close>

fun findExisting :: "gateway \<Rightarrow> database \<Rightarrow> string \<Rightarrow> string list \<Rightarrow> js_string" where
  "findExisting g d otherUserId [] = Null"
| "findExisting g d otherUserId (cid # rest) =
     (case lookupOther g d cid otherUserId of
        Some found \<Rightarrow> Str found
      | None \<Rightarrow> findExisting g d otherUserId rest)"

definition startConversation_catch :: "new_message_world \<Rightarrow> new_message_world" where
  "startConversation_catch w =
     w\<lparr>nm_console := nm_console w @ [Error [S ''Error starting conversation:'']],
       nm_error := Str ''Failed to start conversation''\<rparr>"

text \<open>
  The second half of \<^verbatim>\<open>startConversation\<close>: insert the conversation, then both
  participant rows in one request, then navigate. A failed insert is thrown and caught.
\<close>

definition startConversation_create ::
  "gateway \<Rightarrow> string \<Rightarrow> string \<Rightarrow> new_message_world \<Rightarrow> new_message_world" where
  "startConversation_create g uid otherUserId w =
     (if conversation_insert_fails g then startConversation_catch w
      else
        let w1 = w\<lparr>db := (db w)\<lparr>conversations_table :=
                                     conversations_table (db w) @ [new_uuid g]\<rparr>\<rparr>
        in if participants_insert_fails g then startConversation_catch w1
           else w1\<lparr>db := (db w1)\<lparr>conversation_participants :=
                                      conversation_participants (db w1)
                                        @ [(new_uuid g, uid), (new_uuid g, otherUserId)]\<rparr>,
                    routes := routes w1 @ [''/messages/'' @ new_uuid g]\<rparr>)"

definition startConversation ::
  "auth_response \<Rightarrow> gateway \<Rightarrow> string \<Rightarrow> new_message_world \<Rightarrow> new_message_world" where
  "startConversation auth g otherUserId w =
     (case auth of
        UserThrows \<Rightarrow> startConversation_catch w
      | UserNone \<Rightarrow> w\<lparr>nm_error := Str ''You must be logged in to start a conversation''\<rparr>
      | UserError \<Rightarrow> w\<lparr>nm_error := Str ''You must be logged in to start a conversation''\<rparr>
      | UserOk uid \<Rightarrow>
          if participants_select_fails g then startConversation_catch w
          else
            let existingParticipants =
                  map fst (filter (\<lambda>(c, u). u = uid) (conversation_participants (db w)));
                existingConversationId = findExisting g (db w) otherUserId existingParticipants
            in case existingConversationId of
                 Str cid \<Rightarrow>
                   if cid \<noteq> [] then w\<lparr>routes := routes w @ [''/messages/'' @ cid]\<rparr>
                   else startConversation_create g uid otherUserId w
               | _ \<Rightarrow> startConversation_create g uid otherUserId w)"


text \<open>
  The notions the statements about \<^verbatim>\<open>startConversation\<close> use: a conversation shared by
  two users, a gateway that reports no failure, and tables that respect the schema
  (\<^verbatim>\<open>UNIQUE(conversation_id, user_id)\<close>, identifiers are never empty).
\<close>

definition sharedConversation :: "database \<Rightarrow> string \<Rightarrow> string \<Rightarrow> string \<Rightarrow> bool" where
  "sharedConversation d viewer otherUserId cid \<longleftrightarrow>
     (cid, viewer) \<in> set (conversation_participants d)
     \<and> (cid, otherUserId) \<in> set (conversation_participants d)"

definition gateway_ok :: "gateway \<Rightarrow> bool" where
  "gateway_ok g \<longleftrightarrow>
     \<not> participants_select_fails g \<and> (\<forall>cid. \<not> lookup_fails g cid)
     \<and> \<not> conversation_insert_fails g \<and> \<not> participants_insert_fails g"

definition tables_ok :: "database \<Rightarrow> bool" where
  "tables_ok d \<longleftrightarrow>
     distinct (conversation_participants d)
     \<and> list_all (\<lambda>(c, u). c \<noteq> []) (conversation_participants d)"

section \<open>Fetching the conversation list\<close>

text \<open>The state setters of \<^verbatim>\<open>MessagesScreen\<close>.\<close>

definition setConversations :: "conversation list \<Rightarrow> world \<Rightarrow> world" where
  "setConversations cs w = w\<lparr>screen := (screen w)\<lparr>conversations := cs\<rparr>\<rparr>"

definition setLoading :: "bool \<Rightarrow> world \<Rightarrow> world" where
  "setLoading b w = w\<lparr>screen := (screen w)\<lparr>loading := b\<rparr>\<rparr>"

definition setRefreshing :: "bool \<Rightarrow> world \<Rightarrow> world" where
  "setRefreshing b w = w\<lparr>screen := (screen w)\<lparr>refreshing := b\<rparr>\<rparr>"

definition setCurrentUserId :: "js_string \<Rightarrow> world \<Rightarrow> world" where
  "setCurrentUserId v w = w\<lparr>screen := (screen w)\<lparr>currentUserId := v\<rparr>\<rparr>"

definition setError :: "js_string \<Rightarrow> world \<Rightarrow> world" where
  "setError v w = w\<lparr>screen := (screen w)\<lparr>error := v\<rparr>\<rparr>"

text \<open>
  The answer to the conversations query: rows (or \<^verbatim>\<open>null\<close> data), an error with its
  message, or a rejected promise.
\<close>

datatype query_response = QueryData "conversation list option" | QueryError string | QueryThrows

text \<open>How a block ends: normally, or by a thrown exception; both carry the state reached.\<close>

datatype 'a outcome = Returned 'a | Thrown 'a

text \<open>
  \<^verbatim>\<open>fetchCurrentUser\<close>, from the point where \<^verbatim>\<open>getUser\<close> has settled: the value it
  returns (\<open>Null\<close> for \<^verbatim>\<open>null\<close>) and the state it leaves. Its own
  \<^verbatim>\<open>try/catch\<close> handles a rejected promise.
\<close>

definition fetchCurrentUser :: "auth_response \<Rightarrow> world \<Rightarrow> js_string \<times> world" where
  "fetchCurrentUser r w =
     (case r of
        UserError \<Rightarrow>
          (Null, setError (Str ''Authentication error. Please try signing in again.'')
                   (console_write [Error [S ''Error fetching current user:'']] w))
      | UserOk uid \<Rightarrow>
          (Str uid, setCurrentUserId (Str uid)
                      (console_write [Log [S ''Current user ID set to:'', S uid]] w))
      | UserNone \<Rightarrow> (Null, setError (Str ''No user found. Please sign in.'') w)
      | UserThrows \<Rightarrow>
          (Null, setError (Str ''Failed to authenticate. Please try again.'')
                   (console_write [Error [S ''Error fetching current user:'']] w)))"

text \<open>The \<^verbatim>\<open>finally\<close> block of \<^verbatim>\<open>fetchConversations\<close>.\<close>

definition fetchConversations_finally :: "world \<Rightarrow> world" where
  "fetchConversations_finally w = setRefreshing False (setLoading False w)"

text \<open>
  \<^verbatim>\<open>fetchConversations\<close> from the settling of \<^verbatim>\<open>getUser\<close> to its next \<^verbatim>\<open>await\<close>:
  without a user id it sets \<^verbatim>\<open>loading\<close> to false and returns through \<^verbatim>\<open>finally\<close>
  (\<open>None\<close>); with one it issues the conversations query for that user (\<open>Some uid\<close>).
\<close>

definition fetchConversations_user :: "auth_response \<Rightarrow> world \<Rightarrow> string option \<times> world" where
  "fetchConversations_user r w =
     (let userId = fst (fetchCurrentUser r w);
          w1 = snd (fetchCurrentUser r w)
      in case userId of
           Str uid \<Rightarrow>
             if uid \<noteq> [] then
               (Some uid, console_write [Log [S ''Fetching conversations for user:'', S uid]] w1)
             else (None, fetchConversations_finally (setLoading False w1))
         | _ \<Rightarrow> (None, fetchConversations_finally (setLoading False w1)))"

text \<open>
  The rest of the \<^verbatim>\<open>try\<close> block once the query has settled. Rows whose participants
  are all invalid are dropped; the stored list is replaced as a whole.
\<close>

definition fetchConversations_try :: "query_response \<Rightarrow> world \<Rightarrow> world outcome" where
  "fetchConversations_try r w =
     (case r of
        QueryThrows \<Rightarrow> Thrown w
      | QueryError message \<Rightarrow>
          Returned (setError (Str (''Failed to load conversations: '' @ message))
                      (console_write [Error [S ''Supabase error:'', S message]] w))
      | QueryData d \<Rightarrow>
          let rows = (case d of None \<Rightarrow> [] | Some rs \<Rightarrow> rs);
              w1 = console_write [Log [S ''Retrieved '', N (length rows),
                                       S '' conversations from Supabase'']] w;
              w2 = (if length rows = 0 then
                      setConversations [] (console_write [Log [S ''No conversations found'']] w1)
                    else
                      let valid = validConversations rows;
                          w3 = console_write [Log [S ''Loaded '', N (length valid),
                                                   S '' valid conversations'']] w1;
                          w4 = (if length valid = 0 \<and> length rows > 0 then
                                  console_write
                                    [Warn [S ''Found conversations but all were filtered out due to invalid participant data'']]
                                    w3
                                else w3)
                      in setConversations valid w4)
          in Returned (setError Null w2))"

definition fetchConversations_catch :: "world \<Rightarrow> world" where
  "fetchConversations_catch w =
     setError (Str ''Failed to load conversations. Please try again.'')
       (console_write [Error [S ''Error fetching conversations:'']] w)"

text \<open>\<^verbatim>\<open>try { ... } catch { ... } finally { ... }\<close> around the settled query.\<close>

definition fetchConversations_query :: "query_response \<Rightarrow> world \<Rightarrow> world outcome" where
  "fetchConversations_query r w =
     (case fetchConversations_try r w of
        Returned w1 \<Rightarrow> Returned (fetchConversations_finally w1)
      | Thrown w1 \<Rightarrow> Returned (fetchConversations_finally (fetchConversations_catch w1)))"

text \<open>\<^verbatim>\<open>debugConversations\<close>, in the same two halves; it only writes to the console.\<close>

definition debugConversations_user :: "auth_response \<Rightarrow> world \<Rightarrow> string option \<times> world" where
  "debugConversations_user r w =
     (case r of
        UserOk uid \<Rightarrow>
          (Some uid, console_write [Log [S ''Debugging conversations for user:'', S uid]] w)
      | UserThrows \<Rightarrow> (None, console_write [Error [S ''Debug error:'']] w)
      | _ \<Rightarrow> (None, w))"

definition debugConversations_query :: "string \<Rightarrow> query_response \<Rightarrow> world \<Rightarrow> world" where
  "debugConversations_query uid r w =
     (case r of
        QueryThrows \<Rightarrow> console_write [Error [S ''Debug error:'']] w
      | QueryError message \<Rightarrow>
          console_write [Log [S ''Debug: No conversations found for user'', S uid],
                         Error [S ''Debug: Error:'', S message]] w
      | QueryData d \<Rightarrow>
          (case d of
             Some rs \<Rightarrow>
               if length rs > 0 then
                 console_write [Log [S ''Debug: First few conversations:'', Json rs]] w
               else console_write [Log [S ''Debug: No conversations found for user'', S uid]] w
           | None \<Rightarrow> console_write [Log [S ''Debug: No conversations found for user'', S uid]] w))"

section \<open>The live-sync effect of the conversation list\<close>

datatype change_type = INSERT | UPDATE | DELETE

definition change_name :: "change_type \<Rightarrow> string" where
  "change_name ev = (case ev of INSERT \<Rightarrow> ''INSERT'' | UPDATE \<Rightarrow> ''UPDATE'' | DELETE \<Rightarrow> ''DELETE'')"

text \<open>
  A \<^verbatim>\<open>postgres_changes\<close> subscription: \<open>AllEvents\<close> is \<^verbatim>\<open>event: '*'\<close>, and
  \<open>sub_filter = None\<close> says that no row predicate was given.
\<close>

datatype event_filter = AllEvents | Only change_type

record subscription =
  channel_name :: string
  sub_event :: event_filter
  sub_schema :: string
  sub_table :: string
  sub_filter :: "string option"

text \<open>
  One invocation of \<^verbatim>\<open>fetchConversations\<close>: who called it and the \<^verbatim>\<open>await\<close> at which
  it is suspended. \<^verbatim>\<open>initialize\<close> awaits \<^verbatim>\<open>debugConversations\<close> after the fetch, which
  gives its invocation two more stages.
\<close>

datatype caller = Initialize | ChangeCallback | PullToRefresh | RetryButton

datatype stage =
  AwaitingUser | AwaitingQuery string | DebugAwaitingUser | DebugAwaitingQuery string
  | Settled | Rejected

record fetch_task =
  task_caller :: caller
  task_stage :: stage

text \<open>
  The effect's variable \<^verbatim>\<open>mounted\<close> is true from the start of the effect to its cleanup:
  that is the \<open>Active\<close> part of the screen's life.
\<close>

datatype lifecycle = Idle | Active | Released

record system =
  ui :: world
  lifecycle :: lifecycle
  channels :: "subscription list"
  tasks :: "fetch_task list"

definition mounted :: "system \<Rightarrow> bool" where
  "mounted s \<longleftrightarrow> lifecycle s = Active"

text \<open>
  A call of \<^verbatim>\<open>fetchConversations()\<close>: the invocation runs to its first \<^verbatim>\<open>await\<close>, the
  \<^verbatim>\<open>getUser\<close> request, without touching the state.
\<close>

definition fetchConversations :: "caller \<Rightarrow> system \<Rightarrow> system" where
  "fetchConversations c s = s\<lparr>tasks := tasks s @ [\<lparr>task_caller = c, task_stage = AwaitingUser\<rparr>]\<rparr>"

definition conversationsChannel :: subscription where
  "conversationsChannel =
     \<lparr>channel_name = ''conversations_channel'', sub_event = AllEvents, sub_schema = ''public'',
      sub_table = ''conversations'', sub_filter = None\<rparr>"

definition messagesChannel :: subscription where
  "messagesChannel =
     \<lparr>channel_name = ''messages_channel'', sub_event = AllEvents, sub_schema = ''public'',
      sub_table = ''messages'', sub_filter = None\<rparr>"

text \<open>
  Whether the gateway hands a change of a table to a subscription. Rows are not modelled,
  so a subscription with a row predicate is taken to receive nothing.
\<close>

definition delivers :: "subscription \<Rightarrow> string \<Rightarrow> change_type \<Rightarrow> bool" where
  "delivers sub table ev \<longleftrightarrow>
     sub_table sub = table \<and> (sub_event sub = AllEvents \<or> sub_event sub = Only ev)
     \<and> sub_filter sub = None"

text \<open>
  The two change callbacks: \<^verbatim>\<open>console.log(label, payload.eventType);
  if (mounted) fetchConversations();\<close>
\<close>

definition onChange :: "string \<Rightarrow> change_type \<Rightarrow> system \<Rightarrow> system" where
  "onChange label ev s =
     (let s1 = s\<lparr>ui := console_write [Log [S label, S (change_name ev)]] (ui s)\<rparr>
      in if mounted s1 then fetchConversations ChangeCallback s1 else s1)"

definition callbackOf :: "subscription \<Rightarrow> change_type \<Rightarrow> system \<Rightarrow> system" where
  "callbackOf sub ev =
     onChange (if channel_name sub = ''conversations_channel''
               then ''Conversation change detected:'' else ''Message change detected:'') ev"

text \<open>The gateway delivers a change to every subscription of the screen that receives it.\<close>

definition changeEvent :: "string \<Rightarrow> change_type \<Rightarrow> system \<Rightarrow> system" where
  "changeEvent table ev s =
     foldl (\<lambda>s' sub. if delivers sub table ev then callbackOf sub ev s' else s') s (channels s)"

text \<open>
  The effect body: \<^verbatim>\<open>let mounted = true\<close>, the call of \<^verbatim>\<open>initialize()\<close> up to its
  first \<^verbatim>\<open>await\<close>, and the two subscriptions. It runs once, when the screen mounts.
\<close>

definition activate :: "system \<Rightarrow> system" where
  "activate s =
     (if lifecycle s = Idle then
        let s1 = s\<lparr>lifecycle := Active\<rparr>;
            s2 = s1\<lparr>ui := setLoading True (ui s1)\<rparr>;
            s3 = (if mounted s2 then fetchConversations Initialize s2 else s2)
        in s3\<lparr>channels := [conversationsChannel, messagesChannel]\<rparr>
      else s)"

text \<open>The cleanup: \<^verbatim>\<open>mounted = false\<close> and both \<^verbatim>\<open>unsubscribe()\<close> calls.\<close>

definition deactivate :: "system \<Rightarrow> system" where
  "deactivate s =
     (if lifecycle s = Active then s\<lparr>lifecycle := Released, channels := []\<rparr> else s)"

definition settle :: "nat \<Rightarrow> stage \<Rightarrow> system \<Rightarrow> system" where
  "settle i st s = s\<lparr>tasks := (tasks s)[i := (tasks s ! i)\<lparr>task_stage := st\<rparr>]\<rparr>"

text \<open>The \<^verbatim>\<open>catch\<close> and \<^verbatim>\<open>finally\<close> blocks of \<^verbatim>\<open>initialize\<close>, both guarded by \<^verbatim>\<open>mounted\<close>.\<close>

definition initialize_catch :: "system \<Rightarrow> system" where
  "initialize_catch s =
     (let s1 = s\<lparr>ui := console_write [Error [S ''Initialization error:'']] (ui s)\<rparr>
      in if mounted s1
         then s1\<lparr>ui := setError (Str ''Failed to initialize. Please restart the app.'') (ui s1)\<rparr>
         else s1)"

definition initialize_finally :: "system \<Rightarrow> system" where
  "initialize_finally s = (if mounted s then s\<lparr>ui := setLoading False (ui s)\<rparr> else s)"

text \<open>
  The promise of \<^verbatim>\<open>fetchConversations\<close> has resolved: \<^verbatim>\<open>initialize\<close> goes on to call
  \<^verbatim>\<open>debugConversations()\<close>, the other callers do not wait for it.
\<close>

definition fetch_settled :: "nat \<Rightarrow> system \<Rightarrow> system" where
  "fetch_settled i s =
     (if task_caller (tasks s ! i) = Initialize then settle i DebugAwaitingUser s
      else settle i Settled s)"

text \<open>The \<^verbatim>\<open>getUser\<close> request of invocation \<open>i\<close> settles.\<close>

definition userResolved :: "nat \<Rightarrow> auth_response \<Rightarrow> system \<Rightarrow> system" where
  "userResolved i r s =
     (if i < length (tasks s) then
        (case task_stage (tasks s ! i) of
           AwaitingUser \<Rightarrow>
             (let res = fetchConversations_user r (ui s);
                  s1 = s\<lparr>ui := snd res\<rparr>
              in case fst res of
                   Some uid \<Rightarrow> settle i (AwaitingQuery uid) s1
                 | None \<Rightarrow> fetch_settled i s1)
         | DebugAwaitingUser \<Rightarrow>
             (let res = debugConversations_user r (ui s);
                  s1 = s\<lparr>ui := snd res\<rparr>
              in case fst res of
                   Some uid \<Rightarrow> settle i (DebugAwaitingQuery uid) s1
                 | None \<Rightarrow> initialize_finally (settle i Settled s1))
         | _ \<Rightarrow> s)
      else s)"

text \<open>The conversations query of invocation \<open>i\<close> settles.\<close>

definition queryResolved :: "nat \<Rightarrow> query_response \<Rightarrow> system \<Rightarrow> system" where
  "queryResolved i r s =
     (if i < length (tasks s) then
        (case task_stage (tasks s ! i) of
           AwaitingQuery uid \<Rightarrow>
             (case fetchConversations_query r (ui s) of
                Returned w1 \<Rightarrow> fetch_settled i (s\<lparr>ui := w1\<rparr>)
              | Thrown w1 \<Rightarrow>
                  if task_caller (tasks s ! i) = Initialize
                  then initialize_finally (initialize_catch (settle i Rejected (s\<lparr>ui := w1\<rparr>)))
                  else settle i Rejected (s\<lparr>ui := w1\<rparr>))
         | DebugAwaitingQuery uid \<Rightarrow>
             initialize_finally (settle i Settled (s\<lparr>ui := debugConversations_query uid r (ui s)\<rparr>))
         | _ \<Rightarrow> s)
      else s)"

text \<open>
  The retry button is on screen when the screen is mounted, not loading, and
  \<^verbatim>\<open>error\<close> is truthy; the list with its pull-to-refresh control when \<^verbatim>\<open>error\<close> is not.
\<close>

definition retryVisible :: "system \<Rightarrow> bool" where
  "retryVisible s \<longleftrightarrow>
     lifecycle s = Active \<and> \<not> loading (screen (ui s)) \<and> truthy (error (screen (ui s)))"

definition listVisible :: "system \<Rightarrow> bool" where
  "listVisible s \<longleftrightarrow>
     lifecycle s = Active \<and> \<not> loading (screen (ui s)) \<and> \<not> truthy (error (screen (ui s)))"

text \<open>\<^verbatim>\<open>onPress\<close> of the retry button.\<close>

definition retryPressed :: "system \<Rightarrow> system" where
  "retryPressed s =
     (if retryVisible s then
        fetchConversations RetryButton (s\<lparr>ui := setError Null (setLoading True (ui s))\<rparr>)
      else s)"

text \<open>\<^verbatim>\<open>onRefresh\<close>.\<close>

definition onRefresh :: "system \<Rightarrow> system" where
  "onRefresh s =
     (if listVisible s then fetchConversations PullToRefresh (s\<lparr>ui := setRefreshing True (ui s)\<rparr>)
      else s)"

text \<open>What can happen to a screen instance, and the state after it has happened.\<close>

datatype event =
  Activate | Deactivate | Change string change_type
  | UserResolved nat auth_response | QueryResolved nat query_response
  | PullRefresh | RetryPressed

fun step :: "event \<Rightarrow> system \<Rightarrow> system" where
  "step Activate s = activate s"
| "step Deactivate s = deactivate s"
| "step (Change table ev) s = changeEvent table ev s"
| "step (UserResolved i r) s = userResolved i r s"
| "step (QueryResolved i r) s = queryResolved i r s"
| "step PullRefresh s = onRefresh s"
| "step RetryPressed s = retryPressed s"

definition run :: "event list \<Rightarrow> system \<Rightarrow> system" where
  "run es s = foldl (\<lambda>s' e. step e s') s es"

text \<open>The screen before its effect has run: the initial values of the state cells.\<close>

definition initial_system :: system where
  "initial_system =
     \<lparr>ui = \<lparr>screen = \<lparr>conversations = [], loading = True, refreshing = False, searchQuery = [],
                       currentUserId = Null, error = Null\<rparr>,
            console = []\<rparr>,
      lifecycle = Idle, channels = [], tasks = []\<rparr>"

text \<open>While the screen is active it holds exactly the two subscriptions of the effect.\<close>

definition subscribed :: "system \<Rightarrow> bool" where
  "subscribed s \<longleftrightarrow> lifecycle s = Active \<and> channels s = [conversationsChannel, messagesChannel]"

section \<open>Example data\<close>

definition profile_u1 :: profile where
  "profile_u1 = \<lparr>profile_id = Str ''u1'', username = Str ''ann'', display_name = Str ''Ann'',
                  avatar_url = Str ''a1''\<rparr>"

definition profile_u2 :: profile where
  "profile_u2 = \<lparr>profile_id = Str ''u2'', username = Str ''bob'', display_name = Str ''Bob'',
                  avatar_url = Str ''a2''\<rparr>"

definition profile_u3 :: profile where
  "profile_u3 = \<lparr>profile_id = Str ''u3'', username = Str ''cat'', display_name = Str ''Cat'',
                  avatar_url = Str ''a3''\<rparr>"

definition profile_u1b :: profile where
  "profile_u1b = \<lparr>profile_id = Str ''u1'', username = Str ''ann'', display_name = Str ''Ann (old)'',
                   avatar_url = Null\<rparr>"

definition profile_noid :: profile where
  "profile_noid = \<lparr>profile_id = Str '''', username = Str ''ghost'', display_name = Null,
                    avatar_url = Null\<rparr>"

definition profile_noid_pic :: profile where
  "profile_noid_pic = \<lparr>profile_id = Str '''', username = Str ''ghost'', display_name = Null,
                        avatar_url = Str ''a0''\<rparr>"

definition conversation_of :: "string \<Rightarrow> profile option list \<Rightarrow> conversation" where
  "conversation_of i pos =
     \<lparr>conv_id = i, last_message = Str ''hi'', last_message_at = Str ''2025-02-17'',
      updated_at = Str ''2025-02-17'', participants = Some (map (\<lambda>po. \<lparr>profiles = po\<rparr>) pos)\<rparr>"

definition world_of :: "js_string \<Rightarrow> conversation list \<Rightarrow> world" where
  "world_of viewer cs =
     \<lparr>screen = \<lparr>conversations = cs, loading = False, refreshing = False, searchQuery = [],
                 currentUserId = viewer, error = Null\<rparr>,
      console = []\<rparr>"

definition reliable_gateway :: gateway where
  "reliable_gateway =
     \<lparr>participants_select_fails = False, lookup_fails = (\<lambda>cid. False),
      conversation_insert_fails = False, participants_insert_fails = False,
      new_uuid = ''c9''\<rparr>"

definition failing_gateway :: gateway where
  "failing_gateway =
     \<lparr>participants_select_fails = True, lookup_fails = (\<lambda>cid. False),
      conversation_insert_fails = False, participants_insert_fails = False,
      new_uuid = ''c9''\<rparr>"

definition new_message_world_of :: "database \<Rightarrow> new_message_world" where
  "new_message_world_of d =
     \<lparr>nm_searchQuery = ''bo'', nm_profiles = [profile_u2], nm_loading = False, nm_error = Null,
      db = d, routes = [], nm_console = []\<rparr>"

definition tables_u1_u2 :: database where
  "tables_u1_u2 =
     \<lparr>conversations_table = [''c1''],
      conversation_participants = [(''c1'', ''u1''), (''c1'', ''u2'')]\<rparr>"

definition tables_empty :: database where
  "tables_empty = \<lparr>conversations_table = [], conversation_participants = []\<rparr>"

text \<open>
  A change event starts a refetch, the screen is released, and only then do the two
  requests of that refetch settle.
\<close>

definition late_fetch_trace :: "event list" where
  "late_fetch_trace =
     [Activate, Change ''messages'' INSERT, Deactivate,
      UserResolved 1 (UserOk ''u1''),
      QueryResolved 1 (QueryData (Some [conversation_of ''c1'' [Some profile_u1, Some profile_u2]]))]"

section \<open>Properties of the conversation-list resolver\<close>

lemma getOtherParticipant_result:
  "fst (getOtherParticipant c w) =
     (let valid = validProfiles (participantList c);
          others = otherProfiles (currentUserId (screen w)) (participantList c)
      in if valid = [] then None
         else if others \<noteq> [] then Some (hd others) else Some (hd valid))"
  by (simp add: getOtherParticipant_def participantList_def otherProfiles_def Let_def
        validProfiles_def List.map_filter_simps split: option.splits)

lemma find_Some_hd_filter:
  "List.find P xs = Some x \<Longrightarrow> filter P xs \<noteq> [] \<and> hd (filter P xs) = x"
  by (induction xs) (auto split: if_splits)

lemma getOtherParticipant_find:
  assumes "List.find (\<lambda>pr. profile_id pr \<noteq> currentUserId (screen w))
             (validProfiles (participantList c)) = Some other"
  shows "fst (getOtherParticipant c w) = Some other"
proof -
  from find_Some_hd_filter [OF assms]
  have ne: "otherProfiles (currentUserId (screen w)) (participantList c) \<noteq> []"
    and h: "hd (otherProfiles (currentUserId (screen w)) (participantList c)) = other"
    by (simp_all add: otherProfiles_def)
  from ne have "validProfiles (participantList c) \<noteq> []"
    by (auto simp: otherProfiles_def)
  with ne h show ?thesis
    by (simp add: getOtherParticipant_result Let_def)
qed

lemma set_validProfiles:
  "pr \<in> set (validProfiles ps) \<longleftrightarrow> (\<exists>p \<in> set ps. profiles p = Some pr \<and> truthy (profile_id pr))"
  by (induction ps)
     (auto simp: validProfiles_def hasValidProfile_def List.map_filter_simps split: option.splits)

lemma validProfiles_empty_iff:
  "validProfiles ps = [] \<longleftrightarrow> \<not> list_ex hasValidProfile ps"
  by (induction ps)
     (auto simp: validProfiles_def hasValidProfile_def List.map_filter_simps split: option.splits)

lemma validProfiles_Cons:
  "validProfiles (q # ps)
     = (case profiles q of
          None \<Rightarrow> validProfiles ps
        | Some pr \<Rightarrow> (case profile_id pr of
                        Str i \<Rightarrow> if i \<noteq> [] then pr # validProfiles ps else validProfiles ps
                      | _ \<Rightarrow> validProfiles ps))"
  by (simp add: validProfiles_def hasValidProfile_def truthy_def List.map_filter_simps
        split: option.splits js_string.splits)

lemma find_first_valid_other:
  assumes "List.find (\<lambda>q. case profiles q of
                             None \<Rightarrow> False
                           | Some pr \<Rightarrow> (case profile_id pr of
                                           Str i \<Rightarrow> i \<noteq> [] \<and> Str i \<noteq> v
                                         | _ \<Rightarrow> False)) ps = Some p"
      and "profiles p = Some other"
  shows "List.find (\<lambda>pr. profile_id pr \<noteq> v) (validProfiles ps) = Some other"
  using assms
proof (induction ps)
  case Nil
  then show ?case by simp
next
  case (Cons q ps)
  show ?case
  proof (cases "case profiles q of
                  None \<Rightarrow> False
                | Some pr \<Rightarrow> (case profile_id pr of
                                Str i \<Rightarrow> i \<noteq> [] \<and> Str i \<noteq> v
                              | _ \<Rightarrow> False)")
    case True
    with Cons.prems(1) have "q = p" by simp
    with True Cons.prems(2) show ?thesis
      by (simp add: validProfiles_Cons split: js_string.splits)
  next
    case False
    with Cons.prems(1) have "List.find (\<lambda>q. case profiles q of
                             None \<Rightarrow> False
                           | Some pr \<Rightarrow> (case profile_id pr of
                                           Str i \<Rightarrow> i \<noteq> [] \<and> Str i \<noteq> v
                                         | _ \<Rightarrow> False)) ps = Some p"
      by simp
    from Cons.IH [OF this Cons.prems(2)]
    have ih: "List.find (\<lambda>pr. profile_id pr \<noteq> v) (validProfiles ps) = Some other" .
    from False ih show ?thesis
      by (auto simp: validProfiles_Cons split: option.splits js_string.splits)
  qed
qed

lemma find_first_valid:
  assumes "List.find (\<lambda>q. case profiles q of
                             None \<Rightarrow> False
                           | Some pr \<Rightarrow> (case profile_id pr of Str i \<Rightarrow> i \<noteq> [] | _ \<Rightarrow> False))
             ps = Some p"
      and "profiles p = Some first"
  shows "\<exists>rest. validProfiles ps = first # rest"
  using assms
proof (induction ps)
  case Nil
  then show ?case by simp
next
  case (Cons q ps)
  show ?case
  proof (cases "case profiles q of
                  None \<Rightarrow> False
                | Some pr \<Rightarrow> (case profile_id pr of Str i \<Rightarrow> i \<noteq> [] | _ \<Rightarrow> False)")
    case True
    with Cons.prems(1) have "q = p" by simp
    with True Cons.prems(2) show ?thesis
      by (simp add: validProfiles_Cons split: js_string.splits)
  next
    case False
    with Cons.prems(1) have "List.find (\<lambda>q. case profiles q of
                             None \<Rightarrow> False
                           | Some pr \<Rightarrow> (case profile_id pr of Str i \<Rightarrow> i \<noteq> [] | _ \<Rightarrow> False))
             ps = Some p"
      by simp
    from Cons.IH [OF this Cons.prems(2)]
    obtain rest where "validProfiles ps = first # rest" by blast
    with False show ?thesis
      by (auto simp: validProfiles_Cons split: option.splits js_string.splits)
  qed
qed

lemma filter_Cons_find:
  "filter P xs = x # rest \<Longrightarrow> List.find P xs = Some x"
  by (induction xs) (auto split: if_splits)

text \<open>
  C1. Take the participants of a conversation in input order and pass over every one whose
  profile payload is missing or whose identifier is missing or empty. If one of the
  remaining profiles has an identifier that differs from the viewer's, the resolver returns
  the first such profile; in particular, when exactly one participant carries a profile
  with a valid identifier that is not the viewer's, it returns that profile.
\<close>

theorem getOtherParticipant_first_other:
  assumes "participants c = Some ps"
  shows
    "(List.find (\<lambda>q. case profiles q of
                       None \<Rightarrow> False
                     | Some pr \<Rightarrow> (case profile_id pr of
                                     Str i \<Rightarrow> i \<noteq> [] \<and> Str i \<noteq> currentUserId (screen w)
                                   | _ \<Rightarrow> False)) ps = Some p
        \<and> profiles p = Some other
      \<longrightarrow> fst (getOtherParticipant c w) = Some other)
     \<and> (filter (\<lambda>q. case profiles q of
                       None \<Rightarrow> False
                     | Some pr \<Rightarrow> (case profile_id pr of
                                     Str i \<Rightarrow> i \<noteq> [] \<and> Str i \<noteq> currentUserId (screen w)
                                   | _ \<Rightarrow> False)) ps = [p]
          \<and> profiles p = Some other
        \<longrightarrow> fst (getOtherParticipant c w) = Some other)"
proof -
  from assms have pl: "participantList c = ps"
    by (simp add: participantList_def)
  have first: "fst (getOtherParticipant c w) = Some other"
    if "List.find (\<lambda>q. case profiles q of
                       None \<Rightarrow> False
                     | Some pr \<Rightarrow> (case profile_id pr of
                                     Str i \<Rightarrow> i \<noteq> [] \<and> Str i \<noteq> currentUserId (screen w)
                                   | _ \<Rightarrow> False)) ps = Some p"
      and "profiles p = Some other"
  proof -
    from find_first_valid_other [OF that]
    have "List.find (\<lambda>pr. profile_id pr \<noteq> currentUserId (screen w))
            (validProfiles (participantList c)) = Some other"
      by (simp only: pl)
    then show ?thesis by (rule getOtherParticipant_find)
  qed
  show ?thesis
  proof (intro conjI impI)
    assume "List.find (\<lambda>q. case profiles q of
                       None \<Rightarrow> False
                     | Some pr \<Rightarrow> (case profile_id pr of
                                     Str i \<Rightarrow> i \<noteq> [] \<and> Str i \<noteq> currentUserId (screen w)
                                   | _ \<Rightarrow> False)) ps = Some p
        \<and> profiles p = Some other"
    then show "fst (getOtherParticipant c w) = Some other"
      using first by blast
  next
    assume a: "filter (\<lambda>q. case profiles q of
                       None \<Rightarrow> False
                     | Some pr \<Rightarrow> (case profile_id pr of
                                     Str i \<Rightarrow> i \<noteq> [] \<and> Str i \<noteq> currentUserId (screen w)
                                   | _ \<Rightarrow> False)) ps = [p]
          \<and> profiles p = Some other"
    then have "List.find (\<lambda>q. case profiles q of
                       None \<Rightarrow> False
                     | Some pr \<Rightarrow> (case profile_id pr of
                                     Str i \<Rightarrow> i \<noteq> [] \<and> Str i \<noteq> currentUserId (screen w)
                                   | _ \<Rightarrow> False)) ps = Some p"
      by (blast intro: filter_Cons_find)
    with a show "fst (getOtherParticipant c w) = Some other"
      using first by blast
  qed
qed

theorem getOtherParticipant_first_other_witness:
  "participants (conversation_of ''c6'' [Some profile_u1, Some profile_noid, None,
                                          Some profile_u3, Some profile_u2])
     = Some [\<lparr>profiles = Some profile_u1\<rparr>, \<lparr>profiles = Some profile_noid\<rparr>, \<lparr>profiles = None\<rparr>,
             \<lparr>profiles = Some profile_u3\<rparr>, \<lparr>profiles = Some profile_u2\<rparr>]
   \<and> fst (getOtherParticipant
            (conversation_of ''c6'' [Some profile_u1, Some profile_noid, None,
                                     Some profile_u3, Some profile_u2])
            (world_of (Str ''u1'') [])) = Some profile_u3
   \<and> participants (conversation_of ''c7'' [Some profile_noid, Some profile_u1, None, Some profile_u2])
       = Some [\<lparr>profiles = Some profile_noid\<rparr>, \<lparr>profiles = Some profile_u1\<rparr>, \<lparr>profiles = None\<rparr>,
               \<lparr>profiles = Some profile_u2\<rparr>]
   \<and> fst (getOtherParticipant
            (conversation_of ''c7'' [Some profile_noid, Some profile_u1, None, Some profile_u2])
            (world_of (Str ''u1'') [])) = Some profile_u2"
proof -
  let ?c6 = "conversation_of ''c6'' [Some profile_u1, Some profile_noid, None,
                                     Some profile_u3, Some profile_u2]"
  let ?c7 = "conversation_of ''c7'' [Some profile_noid, Some profile_u1, None, Some profile_u2]"
  have p6: "participants ?c6
     = Some [\<lparr>profiles = Some profile_u1\<rparr>, \<lparr>profiles = Some profile_noid\<rparr>, \<lparr>profiles = None\<rparr>,
             \<lparr>profiles = Some profile_u3\<rparr>, \<lparr>profiles = Some profile_u2\<rparr>]"
    by (simp add: conversation_of_def)
  have p7: "participants ?c7
       = Some [\<lparr>profiles = Some profile_noid\<rparr>, \<lparr>profiles = Some profile_u1\<rparr>, \<lparr>profiles = None\<rparr>,
               \<lparr>profiles = Some profile_u2\<rparr>]"
    by (simp add: conversation_of_def)
  have v: "currentUserId (screen (world_of (Str ''u1'') [])) = Str ''u1''"
    by (simp add: world_of_def)
  have f6: "List.find (\<lambda>q. case profiles q of
                       None \<Rightarrow> False
                     | Some pr \<Rightarrow> (case profile_id pr of
                                     Str i \<Rightarrow> i \<noteq> [] \<and> Str i \<noteq> Str ''u1''
                                   | _ \<Rightarrow> False))
              [\<lparr>profiles = Some profile_u1\<rparr>, \<lparr>profiles = Some profile_noid\<rparr>, \<lparr>profiles = None\<rparr>,
               \<lparr>profiles = Some profile_u3\<rparr>, \<lparr>profiles = Some profile_u2\<rparr>]
            = Some \<lparr>profiles = Some profile_u3\<rparr>"
    by (simp add: profile_u1_def profile_noid_def profile_u3_def)
  have f7: "filter (\<lambda>q. case profiles q of
                       None \<Rightarrow> False
                     | Some pr \<Rightarrow> (case profile_id pr of
                                     Str i \<Rightarrow> i \<noteq> [] \<and> Str i \<noteq> Str ''u1''
                                   | _ \<Rightarrow> False))
              [\<lparr>profiles = Some profile_noid\<rparr>, \<lparr>profiles = Some profile_u1\<rparr>, \<lparr>profiles = None\<rparr>,
               \<lparr>profiles = Some profile_u2\<rparr>]
            = [\<lparr>profiles = Some profile_u2\<rparr>]"
    by (simp add: profile_u1_def profile_noid_def profile_u2_def)
  from getOtherParticipant_first_other
         [OF p6, of "world_of (Str ''u1'') []" "\<lparr>profiles = Some profile_u3\<rparr>" profile_u3,
          unfolded v] f6
  have r6: "fst (getOtherParticipant ?c6 (world_of (Str ''u1'') [])) = Some profile_u3"
    by simp
  from getOtherParticipant_first_other
         [OF p7, of "world_of (Str ''u1'') []" "\<lparr>profiles = Some profile_u2\<rparr>" profile_u2,
          unfolded v] f7
  have r7: "fst (getOtherParticipant ?c7 (world_of (Str ''u1'') [])) = Some profile_u2"
    by simp
  from p6 r6 p7 r7 show ?thesis by blast
qed

lemma getOtherParticipant_None_iff:
  "fst (getOtherParticipant c w) = None \<longleftrightarrow> validProfiles (participantList c) = []"
  by (simp add: getOtherParticipant_result Let_def)

lemma getOtherParticipant_screen:
  "screen (snd (getOtherParticipant c w)) = screen w"
  by (simp add: getOtherParticipant_def console_write_def Let_def split: option.splits)

lemma renderItem_None:
  "fst (getOtherParticipant c (console_write es w)) = None \<Longrightarrow>
   es = [Log [S ''Rendering conversation '', S (conv_id c)]] \<Longrightarrow>
   fst (renderItem fmt c w) = None"
  by (simp add: renderItem_def Let_def)

lemma validConversations_drops:
  assumes "validProfiles (participantList c) = []"
  shows "c \<notin> set (validConversations rows)"
proof
  assume "c \<in> set (validConversations rows)"
  then obtain ps where "participants c = Some ps" "list_ex hasValidProfile ps"
    by (auto simp: validConversations_def split: option.splits)
  then have "validProfiles (participantList c) \<noteq> []"
    by (simp add: participantList_def validProfiles_empty_iff)
  with assms show False by contradiction
qed

text \<open>
  C3. In a self-conversation, where at least one participant carries a profile with a
  valid identifier and every profile with a valid identifier has the viewer's identifier,
  the resolver returns the first valid profile in input order, which is the viewer's own,
  instead of \<^verbatim>\<open>null\<close>.
\<close>

theorem getOtherParticipant_self_conversation:
  assumes "participants c = Some ps"
      and "List.find (\<lambda>q. case profiles q of
                             None \<Rightarrow> False
                           | Some pr \<Rightarrow> (case profile_id pr of Str i \<Rightarrow> i \<noteq> [] | _ \<Rightarrow> False))
             ps = Some p"
      and "profiles p = Some first"
      and "\<forall>q \<in> set ps. case profiles q of
                           None \<Rightarrow> True
                         | Some pr \<Rightarrow> (case profile_id pr of
                                         Str i \<Rightarrow> i = [] \<or> Str i = currentUserId (screen w)
                                       | _ \<Rightarrow> True)"
  shows "fst (getOtherParticipant c w) = Some first
         \<and> profile_id first = currentUserId (screen w)"
proof -
  from assms(1) have pl: "participantList c = ps"
    by (simp add: participantList_def)
  from find_first_valid [OF assms(2) assms(3)]
  obtain rest where v: "validProfiles ps = first # rest" by blast
  have all: "profile_id pr = currentUserId (screen w)" if "pr \<in> set (validProfiles ps)" for pr
  proof -
    from that obtain q where q: "q \<in> set ps" "profiles q = Some pr" "truthy (profile_id pr)"
      by (auto simp: set_validProfiles)
    from assms(4) q(1) q(2) have "case profile_id pr of
                                    Str i \<Rightarrow> i = [] \<or> Str i = currentUserId (screen w)
                                  | _ \<Rightarrow> True"
      by fastforce
    with q(3) show ?thesis
      by (auto simp: truthy_def split: js_string.splits)
  qed
  then have "otherProfiles (currentUserId (screen w)) (participantList c) = []"
    by (simp add: otherProfiles_def filter_empty_conv pl)
  with v have "fst (getOtherParticipant c w) = Some first"
    by (simp add: getOtherParticipant_result Let_def pl)
  moreover from v all have "profile_id first = currentUserId (screen w)"
    by simp
  ultimately show ?thesis by simp
qed

theorem getOtherParticipant_self_conversation_witness:
  "participants (conversation_of ''c2'' [Some profile_noid, None, Some profile_u1, Some profile_u1b])
     = Some [\<lparr>profiles = Some profile_noid\<rparr>, \<lparr>profiles = None\<rparr>, \<lparr>profiles = Some profile_u1\<rparr>,
             \<lparr>profiles = Some profile_u1b\<rparr>]
   \<and> fst (getOtherParticipant
            (conversation_of ''c2'' [Some profile_noid, None, Some profile_u1, Some profile_u1b])
            (world_of (Str ''u1'') [])) = Some profile_u1
   \<and> profile_id profile_u1 = currentUserId (screen (world_of (Str ''u1'') []))"
proof -
  let ?c = "conversation_of ''c2'' [Some profile_noid, None, Some profile_u1, Some profile_u1b]"
  let ?ps = "[\<lparr>profiles = Some profile_noid\<rparr>, \<lparr>profiles = None\<rparr>, \<lparr>profiles = Some profile_u1\<rparr>,
              \<lparr>profiles = Some profile_u1b\<rparr>]"
  have p: "participants ?c = Some ?ps"
    by (simp add: conversation_of_def)
  have f: "List.find (\<lambda>q. case profiles q of
                             None \<Rightarrow> False
                           | Some pr \<Rightarrow> (case profile_id pr of Str i \<Rightarrow> i \<noteq> [] | _ \<Rightarrow> False))
             ?ps = Some \<lparr>profiles = Some profile_u1\<rparr>"
    by (simp add: profile_noid_def profile_u1_def)
  have s: "profiles \<lparr>profiles = Some profile_u1\<rparr> = Some profile_u1"
    by simp
  have a: "\<forall>q \<in> set ?ps. case profiles q of
                           None \<Rightarrow> True
                         | Some pr \<Rightarrow> (case profile_id pr of
                                         Str i \<Rightarrow> i = [] \<or> Str i = currentUserId (screen (world_of (Str ''u1'') []))
                                       | _ \<Rightarrow> True)"
    by (simp add: profile_noid_def profile_u1_def profile_u1b_def world_of_def)
  from getOtherParticipant_self_conversation [OF p f s a] p show ?thesis
    by blast
qed

text \<open>
  C9. The profile the resolver selects is a function of the participant list and of the
  viewer's identifier alone, so a second invocation selects the same profile as the first;
  an invocation leaves every state cell of the screen as it was (it only writes to the
  console).
\<close>

theorem getOtherParticipant_deterministic_pure:
  "(participants c1 = participants c2 \<and> currentUserId (screen w1) = currentUserId (screen w2)
      \<longrightarrow> fst (getOtherParticipant c1 w1) = fst (getOtherParticipant c2 w2))
   \<and> fst (getOtherParticipant c (snd (getOtherParticipant c w))) = fst (getOtherParticipant c w)
   \<and> screen (snd (getOtherParticipant c w)) = screen w"
  by (simp add: getOtherParticipant_result getOtherParticipant_screen participantList_def)

theorem getOtherParticipant_deterministic_pure_witness:
  "fst (getOtherParticipant (conversation_of ''c1'' [Some profile_u1, Some profile_u2])
          (world_of (Str ''u1'') []))
     = fst (getOtherParticipant (conversation_of ''other id'' [Some profile_u1, Some profile_u2])
             (world_of (Str ''u1'') [conversation_of ''c2'' [Some profile_u1]]))
   \<and> screen (snd (getOtherParticipant (conversation_of ''c1'' [Some profile_u1, Some profile_u2])
                   (world_of (Str ''u1'') []))) = screen (world_of (Str ''u1'') [])"
  using getOtherParticipant_deterministic_pure
    [of "conversation_of ''c1'' [Some profile_u1, Some profile_u2]"
        "conversation_of ''other id'' [Some profile_u1, Some profile_u2]"
        "world_of (Str ''u1'') []"
        "world_of (Str ''u1'') [conversation_of ''c2'' [Some profile_u1]]"
        "conversation_of ''c1'' [Some profile_u1, Some profile_u2]"
        "world_of (Str ''u1'') []"]
  by (simp add: conversation_of_def world_of_def)

section \<open>The avatar of a rendered row\<close>

lemma renderItem_result:
  "fst (renderItem fmt c w) =
     map_option
       (\<lambda>other.
          \<lparr>item_avatar_uri =
             js_or (avatarUrl (currentUserId (screen w)) (participantList c) other)
               (Str defaultAvatar),
           item_title = js_or (display_name other) (js_or (username other) (Str ''Unknown user'')),
           item_timestamp =
             (case last_message_at c of
                Str t \<Rightarrow> if t \<noteq> [] then fmt t else ''Unknown time''
              | _ \<Rightarrow> ''Unknown time''),
           item_last_message = js_or (last_message c) (Str ''No messages yet''),
           item_route = ''/messages/'' @ conv_id c\<rparr>)
       (fst (getOtherParticipant c w))"
proof -
  let ?w0 = "console_write [Log [S ''Rendering conversation '', S (conv_id c)]] w"
  have s0: "screen ?w0 = screen w"
    by (simp add: console_write_def)
  have r: "fst (getOtherParticipant c ?w0) = fst (getOtherParticipant c w)"
    by (simp add: getOtherParticipant_result s0)
  have s1: "screen (snd (getOtherParticipant c ?w0)) = screen w"
    by (simp add: getOtherParticipant_screen s0)
  show ?thesis
    by (cases "fst (getOtherParticipant c w)") (simp_all add: renderItem_def Let_def r s1)
qed

lemma find_differs_valid:
  "List.find (differsFromViewer v) ps = Some p \<Longrightarrow> profiles p = Some pr \<Longrightarrow>
   truthy (profile_id pr) \<Longrightarrow>
   List.find (\<lambda>q. profile_id q \<noteq> v) (validProfiles ps) = Some pr"
proof (induction ps)
  case Nil
  then show ?case by simp
next
  case (Cons a ps)
  show ?case
  proof (cases "differsFromViewer v a")
    case True
    with Cons.prems have "a = p" by simp
    with Cons.prems True show ?thesis
      by (simp add: validProfiles_def hasValidProfile_def differsFromViewer_def
            List.map_filter_simps)
  next
    case False
    with Cons.prems have "List.find (differsFromViewer v) ps = Some p" by simp
    from Cons.IH [OF this Cons.prems(2) Cons.prems(3)]
    have ih: "List.find (\<lambda>q. profile_id q \<noteq> v) (validProfiles ps) = Some pr" .
    from False ih show ?thesis
      by (simp add: validProfiles_def hasValidProfile_def differsFromViewer_def
            List.map_filter_simps split: option.splits)
  qed
qed

text \<open>
  C5, as the source has it. For a rendered conversation (the resolver returned
  \<open>other\<close>), let \<open>p\<close> be the first participant in input order whose payload is present
  and whose identifier differs from the viewer's. The avatar is \<open>p\<close>'s whenever \<open>p\<close>
  has a truthy identifier or a truthy avatar; it is the resolved profile's avatar when
  there is no such \<open>p\<close>, and also when \<open>p\<close> has neither a truthy identifier nor a
  truthy avatar. The row shows that avatar, or the default picture when it is not truthy.
\<close>

theorem avatarUrl_rule:
  assumes "fst (getOtherParticipant c w) = Some other"
  shows
    "(List.find (differsFromViewer (currentUserId (screen w))) (participantList c) = None
        \<longrightarrow> avatarUrl (currentUserId (screen w)) (participantList c) other = avatar_url other)
     \<and> (\<forall>p pr. List.find (differsFromViewer (currentUserId (screen w))) (participantList c) = Some p
            \<and> profiles p = Some pr \<and> (truthy (profile_id pr) \<or> truthy (avatar_url pr))
          \<longrightarrow> avatarUrl (currentUserId (screen w)) (participantList c) other = avatar_url pr)
     \<and> (\<forall>p pr. List.find (differsFromViewer (currentUserId (screen w))) (participantList c) = Some p
            \<and> profiles p = Some pr \<and> \<not> truthy (profile_id pr) \<and> \<not> truthy (avatar_url pr)
          \<longrightarrow> avatarUrl (currentUserId (screen w)) (participantList c) other = avatar_url other)
     \<and> map_option item_avatar_uri (fst (renderItem fmt c w))
         = Some (js_or (avatarUrl (currentUserId (screen w)) (participantList c) other)
                   (Str defaultAvatar))"
proof (intro conjI allI impI)
  assume "List.find (differsFromViewer (currentUserId (screen w))) (participantList c) = None"
  then show "avatarUrl (currentUserId (screen w)) (participantList c) other = avatar_url other"
    by (simp add: avatarUrl_def foundAvatar_def js_or_def truthy_def)
next
  fix p pr
  assume a: "List.find (differsFromViewer (currentUserId (screen w))) (participantList c) = Some p
             \<and> profiles p = Some pr \<and> (truthy (profile_id pr) \<or> truthy (avatar_url pr))"
  then have fa: "foundAvatar (currentUserId (screen w)) (participantList c) = avatar_url pr"
    by (simp add: foundAvatar_def)
  show "avatarUrl (currentUserId (screen w)) (participantList c) other = avatar_url pr"
  proof (cases "truthy (avatar_url pr)")
    case True
    with fa show ?thesis by (simp add: avatarUrl_def js_or_def)
  next
    case False
    with a have "truthy (profile_id pr)" by simp
    with a have "List.find (\<lambda>q. profile_id q \<noteq> currentUserId (screen w))
                   (validProfiles (participantList c)) = Some pr"
      by (simp add: find_differs_valid)
    then have "fst (getOtherParticipant c w) = Some pr"
      by (rule getOtherParticipant_find)
    with assms have "other = pr" by simp
    with fa show ?thesis by (simp add: avatarUrl_def js_or_def)
  qed
next
  fix p pr
  assume "List.find (differsFromViewer (currentUserId (screen w))) (participantList c) = Some p
          \<and> profiles p = Some pr \<and> \<not> truthy (profile_id pr) \<and> \<not> truthy (avatar_url pr)"
  then show "avatarUrl (currentUserId (screen w)) (participantList c) other = avatar_url other"
    by (simp add: avatarUrl_def foundAvatar_def js_or_def)
next
  from assms show "map_option item_avatar_uri (fst (renderItem fmt c w))
      = Some (js_or (avatarUrl (currentUserId (screen w)) (participantList c) other)
                (Str defaultAvatar))"
    by (simp add: renderItem_result)
qed

theorem avatarUrl_rule_witness:
  "fst (getOtherParticipant (conversation_of ''c1'' [Some profile_u1, Some profile_u2])
          (world_of (Str ''u1'') [])) = Some profile_u2
   \<and> List.find (differsFromViewer (Str ''u1''))
         (participantList (conversation_of ''c1'' [Some profile_u1, Some profile_u2]))
       = Some \<lparr>profiles = Some profile_u2\<rparr>
   \<and> avatarUrl (Str ''u1'') (participantList (conversation_of ''c1'' [Some profile_u1, Some profile_u2]))
         profile_u2 = Str ''a2''
   \<and> map_option item_avatar_uri
         (fst (renderItem (\<lambda>t. t) (conversation_of ''c1'' [Some profile_u1, Some profile_u2])
                 (world_of (Str ''u1'') []))) = Some (Str ''a2'')"
proof -
  let ?c = "conversation_of ''c1'' [Some profile_u1, Some profile_u2]"
  let ?w = "world_of (Str ''u1'') []"
  have r: "fst (getOtherParticipant ?c ?w) = Some profile_u2"
    by (simp add: getOtherParticipant_result world_of_def conversation_of_def participantList_def
          validProfiles_def otherProfiles_def hasValidProfile_def truthy_def profile_u1_def
          profile_u2_def List.map_filter_simps Let_def)
  have v: "currentUserId (screen ?w) = Str ''u1''"
    by (simp add: world_of_def)
  have f: "List.find (differsFromViewer (Str ''u1'')) (participantList ?c)
             = Some \<lparr>profiles = Some profile_u2\<rparr>"
    by (simp add: conversation_of_def participantList_def differsFromViewer_def profile_u1_def
          profile_u2_def)
  have t: "truthy (profile_id profile_u2)" "avatar_url profile_u2 = Str ''a2''"
    by (simp_all add: profile_u2_def truthy_def)
  note rule = avatarUrl_rule [OF r, of "\<lambda>t. t", unfolded v]
  from rule f t have a: "avatarUrl (Str ''u1'') (participantList ?c) profile_u2 = Str ''a2''"
    by auto
  from rule have "map_option item_avatar_uri (fst (renderItem (\<lambda>t. t) ?c ?w))
      = Some (js_or (avatarUrl (Str ''u1'') (participantList ?c) profile_u2) (Str defaultAvatar))"
    by blast
  with a have "map_option item_avatar_uri (fst (renderItem (\<lambda>t. t) ?c ?w)) = Some (Str ''a2'')"
    by (simp add: js_or_def truthy_def)
  with r f a show ?thesis by blast
qed

text \<open>
  The claim as stated fails on a participant whose payload is present but whose identifier
  is empty, placed before a valid one. Such a participant is the first whose identifier
  differs from the viewer's. If it has no avatar, the row shows the avatar of the resolved
  profile instead of its (missing) avatar. If it has an avatar, the row shows that avatar,
  which is not the avatar of the first participant with a valid identifier that differs
  from the viewer's, the profile the resolver selected.
\<close>

theorem avatarUrl_first_differing_counterexample:
  "List.find (differsFromViewer (Str ''u1''))
      (participantList (conversation_of ''c4'' [Some profile_noid, Some profile_u2]))
     = Some \<lparr>profiles = Some profile_noid\<rparr>
   \<and> avatar_url profile_noid = Null
   \<and> fst (getOtherParticipant (conversation_of ''c4'' [Some profile_noid, Some profile_u2])
            (world_of (Str ''u1'') [])) = Some profile_u2
   \<and> map_option item_avatar_uri
         (fst (renderItem (\<lambda>t. t) (conversation_of ''c4'' [Some profile_noid, Some profile_u2])
                 (world_of (Str ''u1'') []))) = Some (Str ''a2'')
   \<and> List.find (differsFromViewer (Str ''u1''))
         (participantList (conversation_of ''c5'' [Some profile_noid_pic, Some profile_u2]))
       = Some \<lparr>profiles = Some profile_noid_pic\<rparr>
   \<and> \<not> hasValidProfile \<lparr>profiles = Some profile_noid_pic\<rparr>
   \<and> fst (getOtherParticipant (conversation_of ''c5'' [Some profile_noid_pic, Some profile_u2])
            (world_of (Str ''u1'') [])) = Some profile_u2
   \<and> avatar_url profile_u2 = Str ''a2''
   \<and> map_option item_avatar_uri
         (fst (renderItem (\<lambda>t. t) (conversation_of ''c5'' [Some profile_noid_pic, Some profile_u2])
                 (world_of (Str ''u1'') []))) = Some (Str ''a0'')"
  by (simp add: renderItem_result getOtherParticipant_result world_of_def conversation_of_def
        participantList_def validProfiles_def otherProfiles_def hasValidProfile_def truthy_def
        differsFromViewer_def avatarUrl_def foundAvatar_def js_or_def profile_noid_def
        profile_noid_pic_def profile_u2_def List.map_filter_simps Let_def)

section \<open>Properties of the direct-message header resolver\<close>

lemma findOther_present:
  "findOther v (map Some prs) = Inr (List.find (\<lambda>pr. profile_id pr \<noteq> v) prs)"
  by (induction prs) simp_all

lemma present_map_filter:
  "\<forall>p \<in> set ps. profiles p \<noteq> None \<Longrightarrow> map profiles ps = map Some (List.map_filter profiles ps)"
  by (induction ps) (auto simp: List.map_filter_simps)

text \<open>
  C10, as the source has it. When every participant carries a profile payload, the header
  resolver returns the first profile in input order whose identifier differs from the
  viewer's, taken among all profiles (none is filtered out for a missing identifier), and
  \<^verbatim>\<open>undefined\<close> when there is none, so also when every identifier equals the viewer's:
  there is no fallback to the viewer's own profile.
\<close>

theorem getOtherParticipant_dm_rule:
  assumes "\<forall>p \<in> set ps. profiles p \<noteq> None"
  shows "getOtherParticipant_dm ps v
           = Inr (List.find (\<lambda>pr. profile_id pr \<noteq> v) (List.map_filter profiles ps))
         \<and> ((\<forall>pr \<in> set (List.map_filter profiles ps). profile_id pr = v)
              \<longrightarrow> getOtherParticipant_dm ps v = Inr None)"
proof -
  from assms have e: "getOtherParticipant_dm ps v
      = Inr (List.find (\<lambda>pr. profile_id pr \<noteq> v) (List.map_filter profiles ps))"
    by (simp add: getOtherParticipant_dm_def present_map_filter findOther_present)
  moreover have "List.find (\<lambda>pr. profile_id pr \<noteq> v) (List.map_filter profiles ps) = None"
    if "\<forall>pr \<in> set (List.map_filter profiles ps). profile_id pr = v"
    using that by (simp add: find_None_iff)
  ultimately show ?thesis by simp
qed

theorem getOtherParticipant_dm_rule_witness:
  "list_all (\<lambda>p. profiles p \<noteq> None) [\<lparr>profiles = Some profile_u1\<rparr>, \<lparr>profiles = Some profile_noid\<rparr>,
                                        \<lparr>profiles = Some profile_u2\<rparr>]
   \<and> getOtherParticipant_dm [\<lparr>profiles = Some profile_u1\<rparr>, \<lparr>profiles = Some profile_noid\<rparr>,
                              \<lparr>profiles = Some profile_u2\<rparr>] (Str ''u1'') = Inr (Some profile_noid)
   \<and> list_all (\<lambda>p. profiles p \<noteq> None) [\<lparr>profiles = Some profile_u1\<rparr>]
   \<and> getOtherParticipant_dm [\<lparr>profiles = Some profile_u1\<rparr>] (Str ''u1'') = Inr None"
  using getOtherParticipant_dm_rule
    [of "[\<lparr>profiles = Some profile_u1\<rparr>, \<lparr>profiles = Some profile_noid\<rparr>,
          \<lparr>profiles = Some profile_u2\<rparr>]" "Str ''u1''"]
    getOtherParticipant_dm_rule [of "[\<lparr>profiles = Some profile_u1\<rparr>]" "Str ''u1''"]
  by (simp add: List.map_filter_simps profile_u1_def profile_noid_def profile_u2_def)

text \<open>
  The claim as stated fails on a participant whose profile payload is missing: the scan
  raises instead of returning the first profile whose identifier differs from the viewer's.
\<close>

theorem getOtherParticipant_dm_counterexample:
  "getOtherParticipant_dm [\<lparr>profiles = None\<rparr>, \<lparr>profiles = Some profile_u2\<rparr>] (Str ''u1'')
     = Inl TypeError
   \<and> profile_id profile_u2 \<noteq> Str ''u1''"
  by (simp add: getOtherParticipant_dm_def profile_u2_def)

section \<open>Properties of \<^verbatim>\<open>startConversation\<close>\<close>

lemma filter_pair_distinct:
  "distinct rows \<Longrightarrow>
   filter (\<lambda>(c, u). c = cid \<and> u = other) rows = (if (cid, other) \<in> set rows then [(cid, other)] else [])"
proof (induction rows)
  case Nil
  then show ?case by simp
next
  case (Cons r rows)
  then have notin: "r \<notin> set rows" and d: "distinct rows" by simp_all
  show ?case
  proof (cases "r = (cid, other)")
    case True
    with notin have "(cid, other) \<notin> set rows" by simp
    with Cons.IH [OF d] True show ?thesis by simp
  next
    case False
    with Cons.IH [OF d] show ?thesis by (cases r) auto
  qed
qed

lemma lookupOther_ok:
  assumes "gateway_ok g" "tables_ok d"
  shows "lookupOther g d cid other
           = (if (cid, other) \<in> set (conversation_participants d) then Some cid else None)"
proof -
  from assms(1) have "\<not> lookup_fails g cid" by (simp add: gateway_ok_def)
  moreover from assms(2) have "distinct (conversation_participants d)" by (simp add: tables_ok_def)
  ultimately show ?thesis
    by (simp add: lookupOther_def filter_pair_distinct single_def)
qed

lemma findExisting_ok:
  assumes "gateway_ok g" "tables_ok d"
  shows "findExisting g d other cids
           = (case List.find (\<lambda>cid. (cid, other) \<in> set (conversation_participants d)) cids of
                None \<Rightarrow> Null | Some cid \<Rightarrow> Str cid)"
  by (induction cids) (simp_all add: lookupOther_ok [OF assms])

lemma find_Some_member:
  "List.find P xs = Some x \<Longrightarrow> x \<in> set xs \<and> P x"
  by (induction xs) (auto split: if_splits)

lemma existingParticipants_set:
  "cid \<in> set (map fst (filter (\<lambda>(c, u). u = viewer) rows)) \<longleftrightarrow> (cid, viewer) \<in> set rows"
  by (induction rows) auto

lemma startConversation_existing:
  assumes ok: "gateway_ok g" "tables_ok (db w)"
      and sh: "sharedConversation (db w) viewer other c0"
  shows "\<exists>cid. sharedConversation (db w) viewer other cid
               \<and> startConversation (UserOk viewer) g other w
                   = w\<lparr>routes := routes w @ [''/messages/'' @ cid]\<rparr>"
proof -
  let ?rows = "conversation_participants (db w)"
  let ?mine = "map fst (filter (\<lambda>(c, u). u = viewer) ?rows)"
  from sh have "(c0, viewer) \<in> set ?rows" and c0o: "(c0, other) \<in> set ?rows"
    by (simp_all add: sharedConversation_def)
  then have "c0 \<in> set ?mine"
    by (simp only: existingParticipants_set)
  note this c0o
  then have "List.find (\<lambda>cid. (cid, other) \<in> set ?rows) ?mine \<noteq> None"
    by (auto simp: find_None_iff)
  then obtain cid where f: "List.find (\<lambda>cid. (cid, other) \<in> set ?rows) ?mine = Some cid"
    by blast
  from find_Some_member [OF this]
  have m: "cid \<in> set ?mine" and o: "(cid, other) \<in> set ?rows"
    by blast+
  from m have v: "(cid, viewer) \<in> set ?rows"
    by (simp only: existingParticipants_set)
  from ok(2) o have ne: "cid \<noteq> []"
    by (auto simp: tables_ok_def list_all_iff)
  from ok(1) have "\<not> participants_select_fails g" by (simp add: gateway_ok_def)
  with f ne have "startConversation (UserOk viewer) g other w
      = w\<lparr>routes := routes w @ [''/messages/'' @ cid]\<rparr>"
    by (simp add: startConversation_def findExisting_ok [OF ok] Let_def)
  with v o show ?thesis
    by (auto simp: sharedConversation_def)
qed

lemma startConversation_new:
  assumes ok: "gateway_ok g" "tables_ok (db w)"
      and nsh: "\<not> (\<exists>cid. sharedConversation (db w) viewer other cid)"
  shows "startConversation (UserOk viewer) g other w
           = w\<lparr>db := \<lparr>conversations_table = conversations_table (db w) @ [new_uuid g],
                       conversation_participants =
                         conversation_participants (db w)
                           @ [(new_uuid g, viewer), (new_uuid g, other)]\<rparr>,
                 routes := routes w @ [''/messages/'' @ new_uuid g]\<rparr>"
proof -
  let ?rows = "conversation_participants (db w)"
  let ?mine = "map fst (filter (\<lambda>(c, u). u = viewer) ?rows)"
  from nsh have "\<forall>cid \<in> set ?mine. (cid, other) \<notin> set ?rows"
    by (auto simp: sharedConversation_def)
  then have f: "List.find (\<lambda>cid. (cid, other) \<in> set ?rows) ?mine = None"
    by (simp add: find_None_iff)
  from ok(1) have "\<not> participants_select_fails g" "\<not> conversation_insert_fails g"
      "\<not> participants_insert_fails g"
    by (simp_all add: gateway_ok_def)
  with f show ?thesis
    by (simp add: startConversation_def startConversation_create_def findExisting_ok [OF ok] Let_def)
qed

text \<open>
  C7, as the source has it. When every gateway request succeeds and the participant table
  respects its uniqueness constraint, \<^verbatim>\<open>startConversation\<close> of an authenticated viewer
  changes the tables if and only if no conversation has both users as participants: then it
  inserts one conversation row and the two participant rows and navigates to the new
  conversation; otherwise it navigates to a shared conversation and the tables stay as they
  were. With no authenticated user it leaves the tables alone, navigates nowhere and sets an
  error message, whatever the gateway does.
\<close>

theorem startConversation_rule:
  assumes "gateway_ok g" "tables_ok (db w)"
  shows
    "(db (startConversation (UserOk viewer) g other w) \<noteq> db w
        \<longleftrightarrow> \<not> (\<exists>cid. sharedConversation (db w) viewer other cid))
     \<and> (\<not> (\<exists>cid. sharedConversation (db w) viewer other cid) \<longrightarrow>
          startConversation (UserOk viewer) g other w
            = w\<lparr>db := \<lparr>conversations_table = conversations_table (db w) @ [new_uuid g],
                        conversation_participants =
                          conversation_participants (db w)
                            @ [(new_uuid g, viewer), (new_uuid g, other)]\<rparr>,
                  routes := routes w @ [''/messages/'' @ new_uuid g]\<rparr>)
     \<and> ((\<exists>cid. sharedConversation (db w) viewer other cid) \<longrightarrow>
          (\<exists>cid. sharedConversation (db w) viewer other cid
                 \<and> startConversation (UserOk viewer) g other w
                     = w\<lparr>routes := routes w @ [''/messages/'' @ cid]\<rparr>))
     \<and> (\<forall>g'. startConversation UserNone g' other w
                = w\<lparr>nm_error := Str ''You must be logged in to start a conversation''\<rparr>
              \<and> startConversation UserError g' other w
                  = w\<lparr>nm_error := Str ''You must be logged in to start a conversation''\<rparr>)"
proof (intro conjI)
  show "db (startConversation (UserOk viewer) g other w) \<noteq> db w
          \<longleftrightarrow> \<not> (\<exists>cid. sharedConversation (db w) viewer other cid)"
  proof (cases "\<exists>cid. sharedConversation (db w) viewer other cid")
    case True
    then obtain c0 where "sharedConversation (db w) viewer other c0" by blast
    from startConversation_existing [OF assms this] True show ?thesis by auto
  next
    case False
    have "conversations_table (db (startConversation (UserOk viewer) g other w))
            \<noteq> conversations_table (db w)"
      by (simp add: startConversation_new [OF assms False])
    then have "db (startConversation (UserOk viewer) g other w) \<noteq> db w" by auto
    with False show ?thesis by simp
  qed
next
  show "\<not> (\<exists>cid. sharedConversation (db w) viewer other cid) \<longrightarrow>
          startConversation (UserOk viewer) g other w
            = w\<lparr>db := \<lparr>conversations_table = conversations_table (db w) @ [new_uuid g],
                        conversation_participants =
                          conversation_participants (db w)
                            @ [(new_uuid g, viewer), (new_uuid g, other)]\<rparr>,
                  routes := routes w @ [''/messages/'' @ new_uuid g]\<rparr>"
    using startConversation_new [OF assms] by blast
next
  show "(\<exists>cid. sharedConversation (db w) viewer other cid) \<longrightarrow>
          (\<exists>cid. sharedConversation (db w) viewer other cid
                 \<and> startConversation (UserOk viewer) g other w
                     = w\<lparr>routes := routes w @ [''/messages/'' @ cid]\<rparr>)"
    using startConversation_existing [OF assms] by blast
next
  show "\<forall>g'. startConversation UserNone g' other w
                = w\<lparr>nm_error := Str ''You must be logged in to start a conversation''\<rparr>
              \<and> startConversation UserError g' other w
                  = w\<lparr>nm_error := Str ''You must be logged in to start a conversation''\<rparr>"
    by (simp add: startConversation_def)
qed

theorem startConversation_rule_witness:
  "gateway_ok reliable_gateway \<and> tables_ok tables_u1_u2
   \<and> sharedConversation tables_u1_u2 ''u1'' ''u2'' ''c1''
   \<and> startConversation (UserOk ''u1'') reliable_gateway ''u2'' (new_message_world_of tables_u1_u2)
       = (new_message_world_of tables_u1_u2)\<lparr>routes := [''/messages/c1'']\<rparr>
   \<and> db (startConversation (UserOk ''u1'') reliable_gateway ''u3''
            (new_message_world_of tables_u1_u2))
       = \<lparr>conversations_table = [''c1'', ''c9''],
          conversation_participants =
            [(''c1'', ''u1''), (''c1'', ''u2''), (''c9'', ''u1''), (''c9'', ''u3'')]\<rparr>"
proof -
  let ?w = "new_message_world_of tables_u1_u2"
  have g: "gateway_ok reliable_gateway"
    by (simp add: gateway_ok_def reliable_gateway_def)
  have d: "db ?w = tables_u1_u2"
    by (simp add: new_message_world_of_def)
  have t0: "tables_ok tables_u1_u2"
    by (simp add: tables_ok_def tables_u1_u2_def)
  then have t: "tables_ok (db ?w)"
    by (simp only: d)
  have sh: "sharedConversation tables_u1_u2 ''u1'' ''u2'' ''c1''"
    by (simp add: sharedConversation_def tables_u1_u2_def)
  have only: "cid = ''c1''" if "sharedConversation tables_u1_u2 ''u1'' ''u2'' cid" for cid
    using that by (simp add: sharedConversation_def tables_u1_u2_def)
  have nsh: "\<not> (\<exists>cid. sharedConversation (db ?w) ''u1'' ''u3'' cid)"
    by (simp add: d) (simp add: sharedConversation_def tables_u1_u2_def)
  note rule2 = startConversation_rule [OF g t, of "''u1''" "''u2''"]
  note rule3 = startConversation_rule [OF g t, of "''u1''" "''u3''"]
  from sh have "\<exists>cid. sharedConversation (db ?w) ''u1'' ''u2'' cid"
    unfolding d by blast
  with rule2 obtain cid where c: "sharedConversation (db ?w) ''u1'' ''u2'' cid"
    and e: "startConversation (UserOk ''u1'') reliable_gateway ''u2'' ?w
              = ?w\<lparr>routes := routes ?w @ [''/messages/'' @ cid]\<rparr>"
    by blast
  from c have "cid = ''c1''"
    unfolding d by (rule only)
  moreover have "routes ?w = []"
    by (simp add: new_message_world_of_def)
  ultimately have a: "startConversation (UserOk ''u1'') reliable_gateway ''u2'' ?w
                        = ?w\<lparr>routes := [''/messages/c1'']\<rparr>"
    using e by simp
  from rule3 nsh have "startConversation (UserOk ''u1'') reliable_gateway ''u3'' ?w
      = ?w\<lparr>db := \<lparr>conversations_table = conversations_table (db ?w) @ [new_uuid reliable_gateway],
                    conversation_participants =
                      conversation_participants (db ?w)
                        @ [(new_uuid reliable_gateway, ''u1''), (new_uuid reliable_gateway, ''u3'')]\<rparr>,
              routes := routes ?w @ [''/messages/'' @ new_uuid reliable_gateway]\<rparr>"
    by blast
  then have b: "db (startConversation (UserOk ''u1'') reliable_gateway ''u3'' ?w)
             = \<lparr>conversations_table = [''c1'', ''c9''],
                conversation_participants =
                  [(''c1'', ''u1''), (''c1'', ''u2''), (''c9'', ''u1''), (''c9'', ''u3'')]\<rparr>"
    by (simp add: d) (simp add: tables_u1_u2_def reliable_gateway_def)
  from g t0 sh a b show ?thesis by blast
qed

text \<open>
  The claim as stated fails when the gateway reports a failure: the viewer is
  authenticated and shares no conversation with the other user, yet nothing is inserted.
\<close>

theorem startConversation_counterexample:
  "\<not> (\<exists>cid. sharedConversation tables_empty ''u1'' ''u2'' cid)
   \<and> db (startConversation (UserOk ''u1'') failing_gateway ''u2'' (new_message_world_of tables_empty))
       = tables_empty
   \<and> nm_error (startConversation (UserOk ''u1'') failing_gateway ''u2''
                 (new_message_world_of tables_empty))
       = Str ''Failed to start conversation''"
  by (simp add: sharedConversation_def tables_empty_def startConversation_def
        startConversation_catch_def failing_gateway_def new_message_world_of_def)

section \<open>Properties of the live-sync effect\<close>

lemma fetchConversations_fields:
  "tasks (fetchConversations c s) = tasks s @ [\<lparr>task_caller = c, task_stage = AwaitingUser\<rparr>]"
  "ui (fetchConversations c s) = ui s"
  "lifecycle (fetchConversations c s) = lifecycle s"
  "channels (fetchConversations c s) = channels s"
  by (simp_all add: fetchConversations_def)

lemma settle_fields:
  "tasks (settle i st s) = (tasks s)[i := (tasks s ! i)\<lparr>task_stage := st\<rparr>]"
  "ui (settle i st s) = ui s"
  "lifecycle (settle i st s) = lifecycle s"
  "channels (settle i st s) = channels s"
  by (simp_all add: settle_def)

lemma fetch_settled_fields:
  "tasks (fetch_settled i s)
     = (tasks s)[i := (tasks s ! i)\<lparr>task_stage :=
          (if task_caller (tasks s ! i) = Initialize then DebugAwaitingUser else Settled)\<rparr>]"
  "ui (fetch_settled i s) = ui s"
  "lifecycle (fetch_settled i s) = lifecycle s"
  "channels (fetch_settled i s) = channels s"
  by (simp_all add: fetch_settled_def settle_fields)

lemma initialize_finally_fields:
  "tasks (initialize_finally s) = tasks s"
  "lifecycle (initialize_finally s) = lifecycle s"
  "channels (initialize_finally s) = channels s"
  by (simp_all add: initialize_finally_def)

lemma initialize_catch_fields:
  "tasks (initialize_catch s) = tasks s"
  "lifecycle (initialize_catch s) = lifecycle s"
  "channels (initialize_catch s) = channels s"
  by (simp_all add: initialize_catch_def Let_def)

lemma userResolved_frame:
  "lifecycle (userResolved i r s) = lifecycle s \<and> channels (userResolved i r s) = channels s"
  by (simp add: userResolved_def Let_def settle_fields fetch_settled_fields
        initialize_finally_fields split: stage.splits option.splits)

lemma queryResolved_frame:
  "lifecycle (queryResolved i r s) = lifecycle s \<and> channels (queryResolved i r s) = channels s"
  by (simp add: queryResolved_def Let_def settle_fields fetch_settled_fields
        initialize_finally_fields initialize_catch_fields split: stage.splits outcome.splits)

lemma onChange_mounted:
  "mounted s \<Longrightarrow>
   onChange label ev s
     = fetchConversations ChangeCallback
         (s\<lparr>ui := console_write [Log [S label, S (change_name ev)]] (ui s)\<rparr>)"
  by (simp add: onChange_def mounted_def Let_def)

lemma onChange_unmounted:
  "\<not> mounted s \<Longrightarrow>
   onChange label ev s = s\<lparr>ui := console_write [Log [S label, S (change_name ev)]] (ui s)\<rparr>"
  by (simp add: onChange_def mounted_def Let_def)

lemma changeEvent_subscribed:
  assumes "subscribed s"
  shows "changeEvent table ev s
           = (if table = ''conversations'' then onChange ''Conversation change detected:'' ev s
              else if table = ''messages'' then onChange ''Message change detected:'' ev s
              else s)"
proof -
  from assms have c: "channels s = [conversationsChannel, messagesChannel]"
    by (simp add: subscribed_def)
  have d1: "delivers conversationsChannel table ev \<longleftrightarrow> table = ''conversations''"
    by (auto simp: delivers_def conversationsChannel_def)
  have d2: "delivers messagesChannel table ev \<longleftrightarrow> table = ''messages''"
    by (auto simp: delivers_def messagesChannel_def)
  have n1: "callbackOf conversationsChannel ev = onChange ''Conversation change detected:'' ev"
    by (simp add: callbackOf_def conversationsChannel_def)
  have n2: "callbackOf messagesChannel ev = onChange ''Message change detected:'' ev"
    by (simp add: callbackOf_def messagesChannel_def)
  show ?thesis
    by (simp add: changeEvent_def c d1 d2 n1 n2)
qed

lemma onChange_subscribed:
  assumes "subscribed s"
  shows "subscribed (onChange label ev s)"
    and "tasks (onChange label ev s)
           = tasks s @ [\<lparr>task_caller = ChangeCallback, task_stage = AwaitingUser\<rparr>]"
proof -
  from assms have m: "mounted s"
    by (simp add: subscribed_def mounted_def)
  from assms show "subscribed (onChange label ev s)"
    by (simp add: onChange_mounted [OF m] subscribed_def fetchConversations_def)
  show "tasks (onChange label ev s)
          = tasks s @ [\<lparr>task_caller = ChangeCallback, task_stage = AwaitingUser\<rparr>]"
    by (simp add: onChange_mounted [OF m] fetchConversations_def)
qed

lemma subscribed_activate:
  "lifecycle s = Idle \<Longrightarrow> subscribed (step Activate s)"
  by (simp add: activate_def subscribed_def mounted_def fetchConversations_def Let_def)

lemma subscribed_step:
  assumes "subscribed s" "e \<noteq> Deactivate"
  shows "subscribed (step e s)"
proof (cases e)
  case Activate
  with assms show ?thesis by (simp add: activate_def subscribed_def)
next
  case Deactivate
  with assms show ?thesis by simp
next
  case (Change table ev)
  with assms show ?thesis
    by (simp add: changeEvent_subscribed onChange_subscribed)
next
  case (UserResolved i r)
  with assms show ?thesis by (simp add: subscribed_def userResolved_frame)
next
  case (QueryResolved i r)
  with assms show ?thesis by (simp add: subscribed_def queryResolved_frame)
next
  case PullRefresh
  with assms show ?thesis by (simp add: subscribed_def onRefresh_def fetchConversations_def)
next
  case RetryPressed
  with assms show ?thesis by (simp add: subscribed_def retryPressed_def fetchConversations_def)
qed

lemma change_subscribed_tasks:
  assumes "subscribed s" "table = ''conversations'' \<or> table = ''messages''"
  shows "tasks (step (Change table ev) s)
           = tasks s @ [\<lparr>task_caller = ChangeCallback, task_stage = AwaitingUser\<rparr>]"
  using assms by (auto simp: changeEvent_subscribed onChange_subscribed)

lemma setter_screen:
  "conversations (screen (setLoading b w)) = conversations (screen w)"
  "conversations (screen (setRefreshing b w)) = conversations (screen w)"
  "conversations (screen (setError v w)) = conversations (screen w)"
  "conversations (screen (setCurrentUserId v w)) = conversations (screen w)"
  "conversations (screen (console_write es w)) = conversations (screen w)"
  "conversations (screen (setConversations cs w)) = cs"
  by (simp_all add: setLoading_def setRefreshing_def setError_def setCurrentUserId_def
        console_write_def setConversations_def)

lemma fetchConversations_query_data:
  "\<exists>w1. fetchConversations_query (QueryData d) w = Returned w1
        \<and> conversations (screen w1) = validConversations (case d of None \<Rightarrow> [] | Some rs \<Rightarrow> rs)
        \<and> error (screen w1) = Null \<and> \<not> loading (screen w1)"
  by (simp add: fetchConversations_query_def fetchConversations_try_def
        fetchConversations_finally_def Let_def setter_screen validConversations_def
        setLoading_def setRefreshing_def setError_def setConversations_def console_write_def
      split: option.splits)

lemma queryResolved_data_conversations:
  assumes "i < length (tasks s)" "task_stage (tasks s ! i) = AwaitingQuery uid"
  shows "conversations (screen (ui (step (QueryResolved i (QueryData d)) s)))
           = validConversations (case d of None \<Rightarrow> [] | Some rs \<Rightarrow> rs)"
proof -
  from fetchConversations_query_data [of d "ui s"]
  obtain w1 where r: "fetchConversations_query (QueryData d) (ui s) = Returned w1"
    and c: "conversations (screen w1) = validConversations (case d of None \<Rightarrow> [] | Some rs \<Rightarrow> rs)"
    by blast
  from assms r have "ui (step (QueryResolved i (QueryData d)) s) = w1"
    by (simp add: queryResolved_def fetch_settled_fields)
  with c show ?thesis by simp
qed

lemma userResolved_ok:
  assumes "i < length (tasks s)" "task_stage (tasks s ! i) = AwaitingUser" "uid \<noteq> []"
  shows "tasks (step (UserResolved i (UserOk uid)) s)
           = (tasks s)[i := (tasks s ! i)\<lparr>task_stage := AwaitingQuery uid\<rparr>]"
    and "currentUserId (screen (ui (step (UserResolved i (UserOk uid)) s))) = Str uid"
    and "conversations (screen (ui (step (UserResolved i (UserOk uid)) s)))
           = conversations (screen (ui s))"
  using assms
  by (simp_all add: userResolved_def fetchConversations_user_def fetchCurrentUser_def Let_def
        settle_fields setCurrentUserId_def console_write_def)

lemma queryResolved_data_tasks:
  assumes "i < length (tasks s)" "task_stage (tasks s ! i) = AwaitingQuery uid"
  shows "tasks (step (QueryResolved i (QueryData d)) s)
           = (tasks s)[i := (tasks s ! i)\<lparr>task_stage :=
                (if task_caller (tasks s ! i) = Initialize then DebugAwaitingUser else Settled)\<rparr>]"
proof -
  from fetchConversations_query_data [of d "ui s"]
  obtain w1 where r: "fetchConversations_query (QueryData d) (ui s) = Returned w1"
    by blast
  with assms show ?thesis
    by (simp add: queryResolved_def fetch_settled_fields)
qed

lemma change_then_refetch:
  assumes sub: "subscribed s" and tb: "table = ''conversations'' \<or> table = ''messages''"
      and uid: "uid \<noteq> []"
  shows "task_stage (tasks (step (UserResolved (length (tasks s)) (UserOk uid))
                              (step (Change table ev) s)) ! length (tasks s))
           = AwaitingQuery uid"
    and "conversations (screen (ui
           (step (QueryResolved (length (tasks s)) (QueryData d))
              (step (UserResolved (length (tasks s)) (UserOk uid))
                 (step (Change table ev) s)))))
           = validConversations (case d of None \<Rightarrow> [] | Some rs \<Rightarrow> rs)"
    and "task_stage (tasks
           (step (QueryResolved (length (tasks s)) (QueryData d))
              (step (UserResolved (length (tasks s)) (UserOk uid))
                 (step (Change table ev) s))) ! length (tasks s))
           = Settled"
proof -
  define n where "n = length (tasks s)"
  define s1 where "s1 = step (Change table ev) s"
  define s2 where "s2 = step (UserResolved n (UserOk uid)) s1"
  have t1: "tasks s1 = tasks s @ [\<lparr>task_caller = ChangeCallback, task_stage = AwaitingUser\<rparr>]"
    unfolding s1_def using sub tb by (rule change_subscribed_tasks)
  then have n1: "n < length (tasks s1)"
    and st1: "task_stage (tasks s1 ! n) = AwaitingUser"
    and c1: "task_caller (tasks s1 ! n) = ChangeCallback"
    by (simp_all add: n_def)
  have t2: "tasks s2 = (tasks s1)[n := (tasks s1 ! n)\<lparr>task_stage := AwaitingQuery uid\<rparr>]"
    unfolding s2_def using n1 st1 uid by (rule userResolved_ok(1))
  with n1 c1 have n2: "n < length (tasks s2)"
    and st2: "task_stage (tasks s2 ! n) = AwaitingQuery uid"
    and c2: "task_caller (tasks s2 ! n) = ChangeCallback"
    by simp_all
  have a: "conversations (screen (ui (step (QueryResolved n (QueryData d)) s2)))
             = validConversations (case d of None \<Rightarrow> [] | Some rs \<Rightarrow> rs)"
    using n2 st2 by (rule queryResolved_data_conversations)
  from queryResolved_data_tasks [OF n2 st2, of d] n2 c2
  have b: "task_stage (tasks (step (QueryResolved n (QueryData d)) s2) ! n) = Settled"
    by simp
  from st2 show "task_stage (tasks (step (UserResolved (length (tasks s)) (UserOk uid))
                              (step (Change table ev) s)) ! length (tasks s))
           = AwaitingQuery uid"
    unfolding s2_def s1_def n_def .
  from a show "conversations (screen (ui
           (step (QueryResolved (length (tasks s)) (QueryData d))
              (step (UserResolved (length (tasks s)) (UserOk uid))
                 (step (Change table ev) s)))))
           = validConversations (case d of None \<Rightarrow> [] | Some rs \<Rightarrow> rs)"
    unfolding s2_def s1_def n_def .
  from b show "task_stage (tasks
           (step (QueryResolved (length (tasks s)) (QueryData d))
              (step (UserResolved (length (tasks s)) (UserOk uid))
                 (step (Change table ev) s))) ! length (tasks s))
           = Settled"
    unfolding s2_def s1_def n_def .
qed

text \<open>
  C6. The effect subscribes to the whole \<^verbatim>\<open>conversations\<close> table and the whole
  \<^verbatim>\<open>messages\<close> table, for every event type and with no row predicate, and the screen
  holds these two subscriptions for as long as it is active. Every change event on either
  table then starts exactly one new invocation of \<^verbatim>\<open>fetchConversations\<close> and leaves the
  invocations already in flight as they are, so two events in a row start two. The
  invocation that an event started asks for the current user; once it has the user's
  identifier it issues the conversations query for that user, and when the query returns
  it replaces the stored list by the valid rows of the answer, whatever was stored before,
  and ends. The requests of one invocation settle without touching the stage of any other.
\<close>

theorem change_event_starts_one_refetch:
  "channels (step Activate initial_system)
     = [\<lparr>channel_name = ''conversations_channel'', sub_event = AllEvents, sub_schema = ''public'',
         sub_table = ''conversations'', sub_filter = None\<rparr>,
        \<lparr>channel_name = ''messages_channel'', sub_event = AllEvents, sub_schema = ''public'',
         sub_table = ''messages'', sub_filter = None\<rparr>]
   \<and> (lifecycle s0 = Idle \<longrightarrow> subscribed (step Activate s0))
   \<and> (subscribed s \<and> e \<noteq> Deactivate \<longrightarrow> subscribed (step e s))
   \<and> (subscribed s \<and> (table = ''conversations'' \<or> table = ''messages'') \<longrightarrow>
        tasks (step (Change table ev) s)
          = tasks s @ [\<lparr>task_caller = ChangeCallback, task_stage = AwaitingUser\<rparr>])
   \<and> (subscribed s \<and> (table = ''conversations'' \<or> table = ''messages'')
        \<and> (table' = ''conversations'' \<or> table' = ''messages'') \<longrightarrow>
        tasks (step (Change table' ev') (step (Change table ev) s))
          = tasks s @ [\<lparr>task_caller = ChangeCallback, task_stage = AwaitingUser\<rparr>,
                       \<lparr>task_caller = ChangeCallback, task_stage = AwaitingUser\<rparr>])
   \<and> (i < length (tasks s) \<and> task_stage (tasks s ! i) = AwaitingQuery uid \<longrightarrow>
        conversations (screen (ui (step (QueryResolved i (QueryData d)) s)))
          = validConversations (case d of None \<Rightarrow> [] | Some rs \<Rightarrow> rs))
   \<and> (subscribed s \<and> (table = ''conversations'' \<or> table = ''messages'') \<and> uid \<noteq> [] \<longrightarrow>
        task_stage (tasks (step (UserResolved (length (tasks s)) (UserOk uid))
                             (step (Change table ev) s)) ! length (tasks s))
          = AwaitingQuery uid
        \<and> conversations (screen (ui
             (step (QueryResolved (length (tasks s)) (QueryData d))
                (step (UserResolved (length (tasks s)) (UserOk uid))
                   (step (Change table ev) s)))))
            = validConversations (case d of None \<Rightarrow> [] | Some rs \<Rightarrow> rs)
        \<and> task_stage (tasks
             (step (QueryResolved (length (tasks s)) (QueryData d))
                (step (UserResolved (length (tasks s)) (UserOk uid))
                   (step (Change table ev) s))) ! length (tasks s))
            = Settled)
   \<and> (i < length (tasks s) \<and> task_stage (tasks s ! i) = AwaitingUser \<and> uid \<noteq> [] \<longrightarrow>
        tasks (step (UserResolved i (UserOk uid)) s)
          = (tasks s)[i := (tasks s ! i)\<lparr>task_stage := AwaitingQuery uid\<rparr>]
        \<and> conversations (screen (ui (step (UserResolved i (UserOk uid)) s)))
            = conversations (screen (ui s)))
   \<and> (i < length (tasks s) \<and> task_stage (tasks s ! i) = AwaitingQuery uid \<longrightarrow>
        tasks (step (QueryResolved i (QueryData d)) s)
          = (tasks s)[i := (tasks s ! i)\<lparr>task_stage :=
               (if task_caller (tasks s ! i) = Initialize then DebugAwaitingUser else Settled)\<rparr>])"
proof (intro conjI impI)
  show "channels (step Activate initial_system)
     = [\<lparr>channel_name = ''conversations_channel'', sub_event = AllEvents, sub_schema = ''public'',
         sub_table = ''conversations'', sub_filter = None\<rparr>,
        \<lparr>channel_name = ''messages_channel'', sub_event = AllEvents, sub_schema = ''public'',
         sub_table = ''messages'', sub_filter = None\<rparr>]"
    by (simp add: activate_def initial_system_def Let_def conversationsChannel_def
          messagesChannel_def)
next
  assume "lifecycle s0 = Idle"
  then show "subscribed (step Activate s0)" by (rule subscribed_activate)
next
  assume "subscribed s \<and> e \<noteq> Deactivate"
  then have "subscribed s" and "e \<noteq> Deactivate" by simp_all
  then show "subscribed (step e s)" by (rule subscribed_step)
next
  assume "subscribed s \<and> (table = ''conversations'' \<or> table = ''messages'')"
  then have "subscribed s" and "table = ''conversations'' \<or> table = ''messages''"
    by simp_all
  then show "tasks (step (Change table ev) s)
          = tasks s @ [\<lparr>task_caller = ChangeCallback, task_stage = AwaitingUser\<rparr>]"
    by (rule change_subscribed_tasks)
next
  assume a: "subscribed s \<and> (table = ''conversations'' \<or> table = ''messages'')
        \<and> (table' = ''conversations'' \<or> table' = ''messages'')"
  then have s0: "subscribed s" and t0: "table = ''conversations'' \<or> table = ''messages''"
    by simp_all
  from s0 have s1: "subscribed (step (Change table ev) s)"
    by (rule subscribed_step) simp
  from s0 t0 have t1: "tasks (step (Change table ev) s)
          = tasks s @ [\<lparr>task_caller = ChangeCallback, task_stage = AwaitingUser\<rparr>]"
    by (rule change_subscribed_tasks)
  from a have "table' = ''conversations'' \<or> table' = ''messages''" by simp
  from change_subscribed_tasks [OF s1 this, of ev'] t1
  show "tasks (step (Change table' ev') (step (Change table ev) s))
          = tasks s @ [\<lparr>task_caller = ChangeCallback, task_stage = AwaitingUser\<rparr>,
                       \<lparr>task_caller = ChangeCallback, task_stage = AwaitingUser\<rparr>]"
    by simp
next
  assume "i < length (tasks s) \<and> task_stage (tasks s ! i) = AwaitingQuery uid"
  then have "i < length (tasks s)" and "task_stage (tasks s ! i) = AwaitingQuery uid"
    by simp_all
  then show "conversations (screen (ui (step (QueryResolved i (QueryData d)) s)))
          = validConversations (case d of None \<Rightarrow> [] | Some rs \<Rightarrow> rs)"
    by (rule queryResolved_data_conversations)
next
  assume "subscribed s \<and> (table = ''conversations'' \<or> table = ''messages'') \<and> uid \<noteq> []"
  then have h: "subscribed s" "table = ''conversations'' \<or> table = ''messages''" "uid \<noteq> []"
    by simp_all
  show "task_stage (tasks (step (UserResolved (length (tasks s)) (UserOk uid))
                             (step (Change table ev) s)) ! length (tasks s))
          = AwaitingQuery uid"
    using h by (rule change_then_refetch(1))
  show "conversations (screen (ui
             (step (QueryResolved (length (tasks s)) (QueryData d))
                (step (UserResolved (length (tasks s)) (UserOk uid))
                   (step (Change table ev) s)))))
            = validConversations (case d of None \<Rightarrow> [] | Some rs \<Rightarrow> rs)"
    using h by (rule change_then_refetch(2))
  show "task_stage (tasks
             (step (QueryResolved (length (tasks s)) (QueryData d))
                (step (UserResolved (length (tasks s)) (UserOk uid))
                   (step (Change table ev) s))) ! length (tasks s))
            = Settled"
    using h by (rule change_then_refetch(3))
next
  assume "i < length (tasks s) \<and> task_stage (tasks s ! i) = AwaitingUser \<and> uid \<noteq> []"
  then have h: "i < length (tasks s)" "task_stage (tasks s ! i) = AwaitingUser" "uid \<noteq> []"
    by simp_all
  show "tasks (step (UserResolved i (UserOk uid)) s)
          = (tasks s)[i := (tasks s ! i)\<lparr>task_stage := AwaitingQuery uid\<rparr>]"
    using h by (rule userResolved_ok(1))
  show "conversations (screen (ui (step (UserResolved i (UserOk uid)) s)))
            = conversations (screen (ui s))"
    using h by (rule userResolved_ok(3))
next
  assume "i < length (tasks s) \<and> task_stage (tasks s ! i) = AwaitingQuery uid"
  then have "i < length (tasks s)" and "task_stage (tasks s ! i) = AwaitingQuery uid"
    by simp_all
  then show "tasks (step (QueryResolved i (QueryData d)) s)
          = (tasks s)[i := (tasks s ! i)\<lparr>task_stage :=
               (if task_caller (tasks s ! i) = Initialize then DebugAwaitingUser else Settled)\<rparr>]"
    by (rule queryResolved_data_tasks)
qed

theorem change_event_starts_one_refetch_witness:
  "lifecycle initial_system = Idle
   \<and> subscribed (step Activate initial_system)
   \<and> tasks (step Activate initial_system) = [\<lparr>task_caller = Initialize, task_stage = AwaitingUser\<rparr>]
   \<and> tasks (step (Change ''conversations'' UPDATE)
              (step (Change ''messages'' INSERT) (step Activate initial_system)))
       = [\<lparr>task_caller = Initialize, task_stage = AwaitingUser\<rparr>,
          \<lparr>task_caller = ChangeCallback, task_stage = AwaitingUser\<rparr>,
          \<lparr>task_caller = ChangeCallback, task_stage = AwaitingUser\<rparr>]
   \<and> task_stage (tasks (run [Activate, Change ''messages'' INSERT, UserResolved 1 (UserOk ''u1'')]
                          initial_system) ! 1)
       = AwaitingQuery ''u1''
   \<and> conversations (screen (ui (run
         [Activate, Change ''messages'' INSERT, UserResolved 1 (UserOk ''u1''),
          QueryResolved 1 (QueryData (Some [conversation_of ''c3'' [None, Some profile_noid],
                                            conversation_of ''c1'' [Some profile_u1, Some profile_u2]]))]
         initial_system)))
       = [conversation_of ''c1'' [Some profile_u1, Some profile_u2]]
   \<and> map task_stage (tasks (run
         [Activate, Change ''messages'' INSERT, UserResolved 1 (UserOk ''u1''),
          QueryResolved 1 (QueryData (Some [conversation_of ''c3'' [None, Some profile_noid],
                                            conversation_of ''c1'' [Some profile_u1, Some profile_u2]]))]
         initial_system))
       = [AwaitingUser, Settled]"
proof -
  let ?d = "Some [conversation_of ''c3'' [None, Some profile_noid],
                  conversation_of ''c1'' [Some profile_u1, Some profile_u2]]"
  define s where "s = step Activate initial_system"
  have i: "lifecycle initial_system = Idle"
    by (simp add: initial_system_def)
  note rule = change_event_starts_one_refetch
    [of initial_system s Activate "''messages''" INSERT "''conversations''" UPDATE 0 "''u1''" ?d]
  from rule i have sub: "subscribed s"
    unfolding s_def by blast
  have t: "tasks s = [\<lparr>task_caller = Initialize, task_stage = AwaitingUser\<rparr>]"
    unfolding s_def
    by (simp add: activate_def initial_system_def mounted_def fetchConversations_def Let_def)
  then have n: "length (tasks s) = 1" by simp
  from rule sub have two: "tasks (step (Change ''conversations'' UPDATE)
              (step (Change ''messages'' INSERT) s))
       = tasks s @ [\<lparr>task_caller = ChangeCallback, task_stage = AwaitingUser\<rparr>,
                    \<lparr>task_caller = ChangeCallback, task_stage = AwaitingUser\<rparr>]"
    by blast
  have u: "''u1'' \<noteq> []" by simp
  from rule sub u have chain:
    "task_stage (tasks (step (UserResolved (length (tasks s)) (UserOk ''u1''))
                             (step (Change ''messages'' INSERT) s)) ! length (tasks s))
          = AwaitingQuery ''u1''"
    "conversations (screen (ui
             (step (QueryResolved (length (tasks s)) (QueryData ?d))
                (step (UserResolved (length (tasks s)) (UserOk ''u1''))
                   (step (Change ''messages'' INSERT) s)))))
            = validConversations (case ?d of None \<Rightarrow> [] | Some rs \<Rightarrow> rs)"
    "task_stage (tasks
             (step (QueryResolved (length (tasks s)) (QueryData ?d))
                (step (UserResolved (length (tasks s)) (UserOk ''u1''))
                   (step (Change ''messages'' INSERT) s))) ! length (tasks s))
            = Settled"
    by blast+
  have v: "validConversations (case ?d of None \<Rightarrow> [] | Some rs \<Rightarrow> rs)
             = [conversation_of ''c1'' [Some profile_u1, Some profile_u2]]"
    by (simp add: validConversations_def conversation_of_def hasValidProfile_def truthy_def
          profile_u1_def profile_noid_def)
  define s3 where "s3 = step (QueryResolved 1 (QueryData ?d))
                          (step (UserResolved 1 (UserOk ''u1'')) (step (Change ''messages'' INSERT) s))"
  from chain(2) v have c3: "conversations (screen (ui s3))
      = [conversation_of ''c1'' [Some profile_u1, Some profile_u2]]"
    unfolding s3_def n by simp
  from chain(3) have st3: "task_stage (tasks s3 ! 1) = Settled"
    unfolding s3_def n .
  have frame: "tasks s3 ! 0 = \<lparr>task_caller = Initialize, task_stage = AwaitingUser\<rparr>
               \<and> length (tasks s3) = 2"
  proof -
    define s1 where "s1 = step (Change ''messages'' INSERT) s"
    define s2 where "s2 = step (UserResolved 1 (UserOk ''u1'')) s1"
    from rule sub have t1: "tasks s1 = tasks s @ [\<lparr>task_caller = ChangeCallback, task_stage = AwaitingUser\<rparr>]"
      unfolding s1_def by blast
    have r1: "1 < length (tasks s1)" "task_stage (tasks s1 ! 1) = AwaitingUser"
      by (simp_all add: t1 t)
    from change_event_starts_one_refetch
      [of initial_system s1 Activate "''messages''" INSERT "''conversations''" UPDATE 1 "''u1''" ?d]
      r1 u
    have t2: "tasks s2 = (tasks s1)[1 := (tasks s1 ! 1)\<lparr>task_stage := AwaitingQuery ''u1''\<rparr>]"
      unfolding s2_def by blast
    then have r2: "1 < length (tasks s2)" "task_stage (tasks s2 ! 1) = AwaitingQuery ''u1''"
      by (simp_all add: t1 t)
    from change_event_starts_one_refetch
      [of initial_system s2 Activate "''messages''" INSERT "''conversations''" UPDATE 1 "''u1''" ?d]
      r2
    have "tasks s3 = (tasks s2)[1 := (tasks s2 ! 1)\<lparr>task_stage :=
               (if task_caller (tasks s2 ! 1) = Initialize then DebugAwaitingUser else Settled)\<rparr>]"
      unfolding s3_def s2_def s1_def by blast
    then show ?thesis
      by (simp add: t2 t1 t)
  qed
  from frame st3 have m: "map task_stage (tasks s3) = [AwaitingUser, Settled]"
    by (cases "tasks s3") (auto simp: length_Suc_conv)
  have r2: "run [Activate, Change ''messages'' INSERT, UserResolved 1 (UserOk ''u1'')] initial_system
              = step (UserResolved 1 (UserOk ''u1'')) (step (Change ''messages'' INSERT) s)"
    unfolding s_def by (simp add: run_def)
  have r3: "run [Activate, Change ''messages'' INSERT, UserResolved 1 (UserOk ''u1''),
                 QueryResolved 1 (QueryData ?d)] initial_system = s3"
    unfolding s3_def s_def by (simp add: run_def)
  from chain(1) have q: "task_stage (tasks (step (UserResolved 1 (UserOk ''u1''))
                             (step (Change ''messages'' INSERT) s)) ! 1) = AwaitingQuery ''u1''"
    unfolding n .
  from i sub t two q c3 m show ?thesis
    unfolding r2 r3 unfolding s_def [symmetric] by simp
qed

lemma fetchConversations_query_returns:
  "\<exists>w1. fetchConversations_query r w = Returned w1"
  by (cases "fetchConversations_try r w") (simp_all add: fetchConversations_query_def)

lemma fetchConversations_query_failure:
  assumes "r = QueryError message \<or> r = QueryThrows"
  shows "\<exists>w1. fetchConversations_query r w = Returned w1
           \<and> conversations (screen w1) = conversations (screen w)
           \<and> currentUserId (screen w1) = currentUserId (screen w)
           \<and> error (screen w1)
               = Str (case r of QueryError m \<Rightarrow> ''Failed to load conversations: '' @ m
                              | _ \<Rightarrow> ''Failed to load conversations. Please try again.'')
           \<and> \<not> loading (screen w1) \<and> \<not> refreshing (screen w1)"
  using assms
  by (auto simp: fetchConversations_query_def fetchConversations_try_def
        fetchConversations_catch_def fetchConversations_finally_def setLoading_def
        setRefreshing_def setError_def console_write_def)

lemma queryResolved_failure:
  assumes i: "i < length (tasks s)" and st: "task_stage (tasks s ! i) = AwaitingQuery uid"
      and r: "r = QueryError message \<or> r = QueryThrows"
  shows "\<exists>w1. fetchConversations_query r (ui s) = Returned w1
           \<and> step (QueryResolved i r) s = fetch_settled i (s\<lparr>ui := w1\<rparr>)
           \<and> conversations (screen w1) = conversations (screen (ui s))
           \<and> error (screen w1)
               = Str (case r of QueryError m \<Rightarrow> ''Failed to load conversations: '' @ m
                              | _ \<Rightarrow> ''Failed to load conversations. Please try again.'')
           \<and> \<not> loading (screen w1) \<and> \<not> refreshing (screen w1)"
proof -
  from fetchConversations_query_failure [OF r, of "ui s"]
  obtain w1 where q: "fetchConversations_query r (ui s) = Returned w1"
    and rest: "conversations (screen w1) = conversations (screen (ui s))"
      "error (screen w1)
         = Str (case r of QueryError m \<Rightarrow> ''Failed to load conversations: '' @ m
                        | _ \<Rightarrow> ''Failed to load conversations. Please try again.'')"
      "\<not> loading (screen w1)" "\<not> refreshing (screen w1)"
    by blast
  from i st q have "step (QueryResolved i r) s = fetch_settled i (s\<lparr>ui := w1\<rparr>)"
    by (simp add: queryResolved_def)
  with q rest show ?thesis by blast
qed

text \<open>
  C8. When the conversations query of an invocation fails, by an error answer or by a
  rejected promise, the invocation ends normally (nothing is thrown out of
  \<^verbatim>\<open>fetchConversations\<close>): the stored conversation list is what it was, \<^verbatim>\<open>error\<close>
  holds a non-empty message, and \<^verbatim>\<open>loading\<close> and \<^verbatim>\<open>refreshing\<close> are false. No
  invocation is started and the other invocations are untouched, so nothing retries by
  itself. On a mounted screen the retry button is then shown, and pressing it starts
  exactly one new invocation.
\<close>

theorem failed_fetch_shows_retry:
  assumes "i < length (tasks s)" and "task_stage (tasks s ! i) = AwaitingQuery uid"
      and "r = QueryError message \<or> r = QueryThrows"
  shows
    "(\<exists>w1. fetchConversations_query r (ui s) = Returned w1)
     \<and> conversations (screen (ui (step (QueryResolved i r) s))) = conversations (screen (ui s))
     \<and> error (screen (ui (step (QueryResolved i r) s)))
         = Str (case r of QueryError m \<Rightarrow> ''Failed to load conversations: '' @ m
                        | _ \<Rightarrow> ''Failed to load conversations. Please try again.'')
     \<and> truthy (error (screen (ui (step (QueryResolved i r) s))))
     \<and> \<not> loading (screen (ui (step (QueryResolved i r) s)))
     \<and> \<not> refreshing (screen (ui (step (QueryResolved i r) s)))
     \<and> tasks (step (QueryResolved i r) s)
         = (tasks s)[i := (tasks s ! i)\<lparr>task_stage :=
              (if task_caller (tasks s ! i) = Initialize then DebugAwaitingUser else Settled)\<rparr>]
     \<and> (lifecycle s = Active \<longrightarrow>
          retryVisible (step (QueryResolved i r) s)
          \<and> tasks (step RetryPressed (step (QueryResolved i r) s))
              = tasks (step (QueryResolved i r) s)
                  @ [\<lparr>task_caller = RetryButton, task_stage = AwaitingUser\<rparr>]
          \<and> error (screen (ui (step RetryPressed (step (QueryResolved i r) s)))) = Null
          \<and> loading (screen (ui (step RetryPressed (step (QueryResolved i r) s)))))"
proof -
  define s' where "s' = step (QueryResolved i r) s"
  from queryResolved_failure [OF assms]
  obtain w1 where q: "fetchConversations_query r (ui s) = Returned w1"
    and s': "s' = fetch_settled i (s\<lparr>ui := w1\<rparr>)"
    and c: "conversations (screen w1) = conversations (screen (ui s))"
    and e: "error (screen w1)
         = Str (case r of QueryError m \<Rightarrow> ''Failed to load conversations: '' @ m
                        | _ \<Rightarrow> ''Failed to load conversations. Please try again.'')"
    and l: "\<not> loading (screen w1)" "\<not> refreshing (screen w1)"
    unfolding s'_def by blast
  have u: "ui s' = w1"
    by (simp add: s' fetch_settled_fields)
  have lc: "lifecycle s' = lifecycle s"
    by (simp add: s' fetch_settled_fields)
  have t: "tasks s' = (tasks s)[i := (tasks s ! i)\<lparr>task_stage :=
              (if task_caller (tasks s ! i) = Initialize then DebugAwaitingUser else Settled)\<rparr>]"
    by (simp add: s' fetch_settled_fields)
  from e assms(3) have tr: "truthy (error (screen w1))"
    by (auto simp: truthy_def)
  have retry: "retryVisible s'
      \<and> tasks (step RetryPressed s') = tasks s' @ [\<lparr>task_caller = RetryButton, task_stage = AwaitingUser\<rparr>]
      \<and> error (screen (ui (step RetryPressed s'))) = Null
      \<and> loading (screen (ui (step RetryPressed s')))"
    if a: "lifecycle s = Active"
  proof -
    from a lc u l tr have v: "retryVisible s'"
      by (simp add: retryVisible_def)
    then have "step RetryPressed s'
        = fetchConversations RetryButton (s'\<lparr>ui := setError Null (setLoading True (ui s'))\<rparr>)"
      by (simp add: retryPressed_def)
    then have "tasks (step RetryPressed s')
          = tasks s' @ [\<lparr>task_caller = RetryButton, task_stage = AwaitingUser\<rparr>]"
        "error (screen (ui (step RetryPressed s'))) = Null"
        "loading (screen (ui (step RetryPressed s')))"
      by (simp_all add: fetchConversations_def setError_def setLoading_def)
    with v show ?thesis by blast
  qed
  from q c e tr l t retry have
    "(\<exists>w1. fetchConversations_query r (ui s) = Returned w1)
     \<and> conversations (screen (ui s')) = conversations (screen (ui s))
     \<and> error (screen (ui s'))
         = Str (case r of QueryError m \<Rightarrow> ''Failed to load conversations: '' @ m
                        | _ \<Rightarrow> ''Failed to load conversations. Please try again.'')
     \<and> truthy (error (screen (ui s')))
     \<and> \<not> loading (screen (ui s'))
     \<and> \<not> refreshing (screen (ui s'))
     \<and> tasks s'
         = (tasks s)[i := (tasks s ! i)\<lparr>task_stage :=
              (if task_caller (tasks s ! i) = Initialize then DebugAwaitingUser else Settled)\<rparr>]
     \<and> (lifecycle s = Active \<longrightarrow>
          retryVisible s'
          \<and> tasks (step RetryPressed s')
              = tasks s' @ [\<lparr>task_caller = RetryButton, task_stage = AwaitingUser\<rparr>]
          \<and> error (screen (ui (step RetryPressed s'))) = Null
          \<and> loading (screen (ui (step RetryPressed s'))))"
    unfolding u by blast
  then show ?thesis
    unfolding s'_def .
qed

theorem failed_fetch_shows_retry_witness:
  "task_stage (tasks (run [Activate, UserResolved 0 (UserOk ''u1'')] initial_system) ! 0)
     = AwaitingQuery ''u1''
   \<and> lifecycle (run [Activate, UserResolved 0 (UserOk ''u1'')] initial_system) = Active
   \<and> conversations (screen (ui (run [Activate, UserResolved 0 (UserOk ''u1''),
                                       QueryResolved 0 (QueryError ''timeout'')] initial_system)))
       = []
   \<and> error (screen (ui (run [Activate, UserResolved 0 (UserOk ''u1''),
                               QueryResolved 0 (QueryError ''timeout'')] initial_system)))
       = Str ''Failed to load conversations: timeout''
   \<and> retryVisible (run [Activate, UserResolved 0 (UserOk ''u1''),
                         QueryResolved 0 (QueryError ''timeout'')] initial_system)
   \<and> map task_stage
         (tasks (run [Activate, UserResolved 0 (UserOk ''u1''),
                      QueryResolved 0 (QueryError ''timeout''), RetryPressed] initial_system))
       = [DebugAwaitingUser, AwaitingUser]"
proof -
  let ?s = "run [Activate, UserResolved 0 (UserOk ''u1'')] initial_system"
  have ts: "tasks ?s = [\<lparr>task_caller = Initialize, task_stage = AwaitingQuery ''u1''\<rparr>]"
    by (simp add: run_def activate_def initial_system_def mounted_def fetchConversations_def
          userResolved_def fetchConversations_user_def fetchCurrentUser_def settle_def Let_def)
  have lc: "lifecycle ?s = Active"
    by (simp add: run_def userResolved_frame)
       (simp add: activate_def initial_system_def mounted_def fetchConversations_def Let_def)
  have cs: "conversations (screen (ui ?s)) = []"
    by (simp add: run_def activate_def initial_system_def mounted_def fetchConversations_def
          userResolved_def fetchConversations_user_def fetchCurrentUser_def settle_def Let_def
          setter_screen)
  have i: "0 < length (tasks ?s)" and st: "task_stage (tasks ?s ! 0) = AwaitingQuery ''u1''"
    by (simp_all add: ts)
  have r: "QueryError ''timeout'' = QueryError ''timeout'' \<or> QueryError ''timeout'' = QueryThrows"
    by simp
  have unfold3: "run [Activate, UserResolved 0 (UserOk ''u1''), QueryResolved 0 (QueryError ''timeout'')]
                   initial_system = step (QueryResolved 0 (QueryError ''timeout'')) ?s"
    by (simp add: run_def)
  have unfold4: "run [Activate, UserResolved 0 (UserOk ''u1''), QueryResolved 0 (QueryError ''timeout''),
                      RetryPressed] initial_system
                   = step RetryPressed (step (QueryResolved 0 (QueryError ''timeout'')) ?s)"
    by (simp add: run_def)
  note rule = failed_fetch_shows_retry [OF i st r]
  from rule cs have a: "conversations (screen (ui (step (QueryResolved 0 (QueryError ''timeout'')) ?s))) = []"
    by simp
  from rule have b: "error (screen (ui (step (QueryResolved 0 (QueryError ''timeout'')) ?s)))
      = Str ''Failed to load conversations: timeout''"
    by simp
  from rule lc have c: "retryVisible (step (QueryResolved 0 (QueryError ''timeout'')) ?s)"
    by blast
  from rule have t1: "tasks (step (QueryResolved 0 (QueryError ''timeout'')) ?s)
      = [\<lparr>task_caller = Initialize, task_stage = DebugAwaitingUser\<rparr>]"
    by (simp add: ts)
  from rule lc have "tasks (step RetryPressed (step (QueryResolved 0 (QueryError ''timeout'')) ?s))
      = tasks (step (QueryResolved 0 (QueryError ''timeout'')) ?s)
          @ [\<lparr>task_caller = RetryButton, task_stage = AwaitingUser\<rparr>]"
    by blast
  with t1 have d: "map task_stage
      (tasks (step RetryPressed (step (QueryResolved 0 (QueryError ''timeout'')) ?s)))
        = [DebugAwaitingUser, AwaitingUser]"
    by simp
  from st lc a b c d show ?thesis
    unfolding unfold3 unfold4 by blast
qed

section \<open>Conversations without a valid participant\<close>

text \<open>
  C2. The resolver keeps exactly the profiles of participants whose payload is present and
  whose identifier is truthy, and it returns \<^verbatim>\<open>null\<close> if and only if none is left. For
  such a conversation \<^verbatim>\<open>renderItem\<close> renders nothing, the filter of
  \<^verbatim>\<open>fetchConversations\<close> drops it, and so it is not among the rows that a settled
  fetch stores.
\<close>

theorem getOtherParticipant_unresolvable_iff:
  "(\<forall>pr. pr \<in> set (validProfiles (participantList c)) \<longleftrightarrow>
          (\<exists>p \<in> set (participantList c). profiles p = Some pr \<and> truthy (profile_id pr)))
   \<and> (fst (getOtherParticipant c w) = None \<longleftrightarrow> validProfiles (participantList c) = [])
   \<and> (validProfiles (participantList c) = [] \<longrightarrow> fst (renderItem fmt c w) = None)
   \<and> (validProfiles (participantList c) = [] \<longrightarrow> c \<notin> set (validConversations rows))
   \<and> (validProfiles (participantList c) = [] \<and> i < length (tasks s)
        \<and> task_stage (tasks s ! i) = AwaitingQuery uid \<longrightarrow>
        c \<notin> set (conversations (screen (ui (step (QueryResolved i (QueryData d)) s)))))"
proof (intro conjI allI impI)
  fix pr
  show "pr \<in> set (validProfiles (participantList c)) \<longleftrightarrow>
        (\<exists>p \<in> set (participantList c). profiles p = Some pr \<and> truthy (profile_id pr))"
    by (rule set_validProfiles)
next
  show "fst (getOtherParticipant c w) = None \<longleftrightarrow> validProfiles (participantList c) = []"
    by (rule getOtherParticipant_None_iff)
next
  assume "validProfiles (participantList c) = []"
  then have "fst (getOtherParticipant c
               (console_write [Log [S ''Rendering conversation '', S (conv_id c)]] w)) = None"
    by (simp add: getOtherParticipant_None_iff)
  then show "fst (renderItem fmt c w) = None"
    by (rule renderItem_None) simp
next
  assume "validProfiles (participantList c) = []"
  then show "c \<notin> set (validConversations rows)"
    by (rule validConversations_drops)
next
  assume a: "validProfiles (participantList c) = [] \<and> i < length (tasks s)
        \<and> task_stage (tasks s ! i) = AwaitingQuery uid"
  then have "i < length (tasks s)" and "task_stage (tasks s ! i) = AwaitingQuery uid"
    by simp_all
  then have "conversations (screen (ui (step (QueryResolved i (QueryData d)) s)))
      = validConversations (case d of None \<Rightarrow> [] | Some rs \<Rightarrow> rs)"
    by (rule queryResolved_data_conversations)
  moreover from a have "c \<notin> set (validConversations (case d of None \<Rightarrow> [] | Some rs \<Rightarrow> rs))"
    by (simp add: validConversations_drops)
  ultimately show "c \<notin> set (conversations (screen (ui (step (QueryResolved i (QueryData d)) s))))"
    by simp
qed

theorem getOtherParticipant_unresolvable_iff_witness:
  "validProfiles (participantList (conversation_of ''c3'' [None, Some profile_noid])) = []
   \<and> fst (getOtherParticipant (conversation_of ''c3'' [None, Some profile_noid])
            (world_of (Str ''u1'') [])) = None
   \<and> fst (renderItem (\<lambda>t. t) (conversation_of ''c3'' [None, Some profile_noid])
            (world_of (Str ''u1'') [])) = None
   \<and> validConversations [conversation_of ''c3'' [None, Some profile_noid],
                          conversation_of ''c1'' [Some profile_u1, Some profile_u2]]
       = [conversation_of ''c1'' [Some profile_u1, Some profile_u2]]
   \<and> conversations (screen (ui (run
         [Activate, UserResolved 0 (UserOk ''u1''),
          QueryResolved 0 (QueryData (Some [conversation_of ''c3'' [None, Some profile_noid],
                                            conversation_of ''c1'' [Some profile_u1, Some profile_u2]]))]
         initial_system)))
       = [conversation_of ''c1'' [Some profile_u1, Some profile_u2]]"
proof -
  let ?c = "conversation_of ''c3'' [None, Some profile_noid]"
  let ?c1 = "conversation_of ''c1'' [Some profile_u1, Some profile_u2]"
  define s where "s = run [Activate, UserResolved 0 (UserOk ''u1'')] initial_system"
  have ts: "tasks s = [\<lparr>task_caller = Initialize, task_stage = AwaitingQuery ''u1''\<rparr>]"
    unfolding s_def
    by (simp add: run_def activate_def initial_system_def mounted_def fetchConversations_def
          userResolved_def fetchConversations_user_def fetchCurrentUser_def settle_def Let_def)
  have i: "0 < length (tasks s)" and st: "task_stage (tasks s ! 0) = AwaitingQuery ''u1''"
    by (simp_all add: ts)
  have e: "validProfiles (participantList ?c) = []"
    by (simp add: conversation_of_def participantList_def validProfiles_def hasValidProfile_def
          truthy_def profile_noid_def List.map_filter_simps)
  note rule = getOtherParticipant_unresolvable_iff
    [of ?c "world_of (Str ''u1'') []" "\<lambda>t. t" "[?c, ?c1]" 0 s "''u1''" "Some [?c, ?c1]"]
  from rule e have a: "fst (getOtherParticipant ?c (world_of (Str ''u1'') [])) = None"
    by blast
  from rule e have b: "fst (renderItem (\<lambda>t. t) ?c (world_of (Str ''u1'') [])) = None"
    by blast
  from rule e have n1: "?c \<notin> set (validConversations [?c, ?c1])"
    by blast
  have "?c1 \<in> set (validConversations [?c, ?c1])"
    by (simp add: conversation_of_def hasValidProfile_def truthy_def profile_u1_def
          validConversations_def)
  with n1 have v: "validConversations [?c, ?c1] = [?c1]"
    by (simp add: validConversations_def split: if_splits)
  from queryResolved_data_conversations [OF i st, of "Some [?c, ?c1]"] v
  have "conversations (screen (ui (step (QueryResolved 0 (QueryData (Some [?c, ?c1]))) s))) = [?c1]"
    by simp
  then have f: "conversations (screen (ui (run
         [Activate, UserResolved 0 (UserOk ''u1''), QueryResolved 0 (QueryData (Some [?c, ?c1]))]
         initial_system))) = [?c1]"
    unfolding s_def by (simp add: run_def)
  from e a b v f show ?thesis by blast
qed

section \<open>After the cleanup of the effect\<close>

lemma released_callbacks_start_nothing:
  assumes "\<not> mounted s"
  shows "tasks (foldl (\<lambda>s' sub. if delivers sub table ev then callbackOf sub ev s' else s') s subs)
           = tasks s
         \<and> screen (ui (foldl (\<lambda>s' sub. if delivers sub table ev then callbackOf sub ev s' else s')
                           s subs)) = screen (ui s)"
  using assms
proof (induction subs arbitrary: s)
  case Nil
  then show ?case by simp
next
  case (Cons sub subs)
  let ?s1 = "if delivers sub table ev then callbackOf sub ev s else s"
  from Cons.prems have m: "\<not> mounted ?s1"
    by (simp add: callbackOf_def onChange_unmounted mounted_def)
  from Cons.prems have f: "tasks ?s1 = tasks s" "screen (ui ?s1) = screen (ui s)"
    by (simp_all add: callbackOf_def onChange_unmounted console_write_def)
  from Cons.IH [OF m] f show ?case by simp
qed

text \<open>
  The part of C4 that the source keeps: once the cleanup has run, a change event starts no
  refetch and changes no state cell, even if a callback is still invoked.
\<close>

lemma released_change_starts_nothing:
  assumes "lifecycle s = Released"
  shows "tasks (step (Change table ev) s) = tasks s"
    and "screen (ui (step (Change table ev) s)) = screen (ui s)"
    and "tasks (onChange label ev s) = tasks s"
proof -
  from assms have m: "\<not> mounted s" by (simp add: mounted_def)
  from released_callbacks_start_nothing [OF m, of "table" ev "channels s"]
  show "tasks (step (Change table ev) s) = tasks s"
    and "screen (ui (step (Change table ev) s)) = screen (ui s)"
    by (simp_all add: changeEvent_def)
  from m show "tasks (onChange label ev s) = tasks s"
    by (simp add: onChange_unmounted)
qed

lemma late_fetch_released:
  "run (take 3 late_fetch_trace) initial_system
     = \<lparr>ui = \<lparr>screen = \<lparr>conversations = [], loading = True, refreshing = False,
                         searchQuery = [], currentUserId = Null, error = Null\<rparr>,
              console = [Log [S ''Message change detected:'', S ''INSERT'']]\<rparr>,
        lifecycle = Released, channels = [],
        tasks = [\<lparr>task_caller = Initialize, task_stage = AwaitingUser\<rparr>,
                 \<lparr>task_caller = ChangeCallback, task_stage = AwaitingUser\<rparr>]\<rparr>"
  by (simp add: late_fetch_trace_def run_def activate_def initial_system_def mounted_def
        fetchConversations_def Let_def changeEvent_def delivers_def callbackOf_def onChange_def
        conversationsChannel_def messagesChannel_def deactivate_def setLoading_def
        console_write_def change_name_def)

text \<open>
  C4 on the source. The refetch started by a change event is still in flight when the
  cleanup runs. When its requests settle afterwards, \<^verbatim>\<open>fetchConversations\<close> sets the
  viewer's identifier, the conversation list, \<^verbatim>\<open>error\<close> and \<^verbatim>\<open>loading\<close> without
  reading \<^verbatim>\<open>mounted\<close>: the stored list of the released screen changes from empty to
  the fetched rows.
\<close>

theorem late_fetch_updates_released_screen:
  "lifecycle (run (take 3 late_fetch_trace) initial_system) = Released
   \<and> channels (run (take 3 late_fetch_trace) initial_system) = []
   \<and> conversations (screen (ui (run (take 3 late_fetch_trace) initial_system))) = []
   \<and> loading (screen (ui (run (take 3 late_fetch_trace) initial_system)))
   \<and> lifecycle (run late_fetch_trace initial_system) = Released
   \<and> conversations (screen (ui (run late_fetch_trace initial_system)))
       = [conversation_of ''c1'' [Some profile_u1, Some profile_u2]]
   \<and> currentUserId (screen (ui (run late_fetch_trace initial_system))) = Str ''u1''
   \<and> \<not> loading (screen (ui (run late_fetch_trace initial_system)))"
proof -
  define s3 where "s3 = run (take 3 late_fetch_trace) initial_system"
  define s4 where "s4 = step (UserResolved 1 (UserOk ''u1'')) s3"
  define s5 where "s5 = step (QueryResolved 1
      (QueryData (Some [conversation_of ''c1'' [Some profile_u1, Some profile_u2]]))) s4"
  have split: "run late_fetch_trace initial_system = s5"
    unfolding s5_def s4_def s3_def by (simp add: late_fetch_trace_def run_def)
  have s3: "s3 = \<lparr>ui = \<lparr>screen = \<lparr>conversations = [], loading = True, refreshing = False,
                         searchQuery = [], currentUserId = Null, error = Null\<rparr>,
              console = [Log [S ''Message change detected:'', S ''INSERT'']]\<rparr>,
        lifecycle = Released, channels = [],
        tasks = [\<lparr>task_caller = Initialize, task_stage = AwaitingUser\<rparr>,
                 \<lparr>task_caller = ChangeCallback, task_stage = AwaitingUser\<rparr>]\<rparr>"
    unfolding s3_def by (rule late_fetch_released)
  have s4: "s4
      = \<lparr>ui = \<lparr>screen = \<lparr>conversations = [], loading = True, refreshing = False,
                          searchQuery = [], currentUserId = Str ''u1'', error = Null\<rparr>,
               console = [Log [S ''Message change detected:'', S ''INSERT''],
                          Log [S ''Current user ID set to:'', S ''u1''],
                          Log [S ''Fetching conversations for user:'', S ''u1'']]\<rparr>,
         lifecycle = Released, channels = [],
         tasks = [\<lparr>task_caller = Initialize, task_stage = AwaitingUser\<rparr>,
                  \<lparr>task_caller = ChangeCallback, task_stage = AwaitingQuery ''u1''\<rparr>]\<rparr>"
    unfolding s4_def s3
    by (simp add: userResolved_def fetchConversations_user_def
          fetchCurrentUser_def setCurrentUserId_def console_write_def settle_def Let_def)
  have v: "validConversations [conversation_of ''c1'' [Some profile_u1, Some profile_u2]]
             = [conversation_of ''c1'' [Some profile_u1, Some profile_u2]]"
    by (simp add: validConversations_def conversation_of_def hasValidProfile_def truthy_def
          profile_u1_def)
  have s5: "screen (ui s5)
      = \<lparr>conversations = [conversation_of ''c1'' [Some profile_u1, Some profile_u2]],
         loading = False, refreshing = False, searchQuery = [], currentUserId = Str ''u1'',
         error = Null\<rparr>"
    and l5: "lifecycle s5 = Released"
    unfolding s5_def s4
    by (simp_all add: queryResolved_def fetchConversations_query_def
          fetchConversations_try_def fetchConversations_finally_def v setConversations_def
          setError_def setLoading_def setRefreshing_def console_write_def fetch_settled_def
          settle_def Let_def)
  have "lifecycle s3 = Released \<and> channels s3 = []
      \<and> conversations (screen (ui s3)) = [] \<and> loading (screen (ui s3))
      \<and> lifecycle s5 = Released
      \<and> conversations (screen (ui s5)) = [conversation_of ''c1'' [Some profile_u1, Some profile_u2]]
      \<and> currentUserId (screen (ui s5)) = Str ''u1''
      \<and> \<not> loading (screen (ui s5))"
    by (simp add: s5 l5) (simp add: s3)
  then show ?thesis
    unfolding split s3_def .
qed

end
